theory Spec2Isabelle
  imports Complex_Main "HOL-Library.AList" "HOL-Library.Signed_Division"
begin

section \<open>Time, strings and formatting as the Go code uses them\<close>

text \<open>
  A \<^verbatim>\<open>time.Time\<close> is the number of nanoseconds since the Unix epoch and a
  \<^verbatim>\<open>time.Duration\<close> a number of nanoseconds, both unbounded integers.
  Every operation reads the clock once: the instant \<open>now\<close> is an argument of the
  operation, where the source calls \<^verbatim>\<open>time.Now()\<close>.
\<close>

definition Millisecond :: int where
  "Millisecond = 1000000"

definition Second :: int where
  "Second = 1000000000"

definition Minute :: int where
  "Minute = 60 * Second"

definition Unix :: "int \<Rightarrow> int" where
  \<comment> \<open>\<^verbatim>\<open>t.Unix()\<close>: whole seconds since the epoch, rounded down\<close>
  "Unix t = t div Second"

definition UnixNano :: "int \<Rightarrow> int" where
  "UnixNano t = t"

definition zero_time :: int where
  \<comment> \<open>the zero \<^verbatim>\<open>time.Time\<close>, January 1 of year 1\<close>
  "zero_time = - 62135596800 * Second"

definition IsZero :: "int \<Rightarrow> bool" where
  "IsZero t = (t = zero_time)"

definition clock_second :: "int \<Rightarrow> int" where
  \<comment> \<open>\<^verbatim>\<open>t.Second()\<close>\<close>
  "clock_second t = Unix t mod 60"

definition clock_minute :: "int \<Rightarrow> int" where
  \<comment> \<open>\<^verbatim>\<open>t.Minute()\<close>, in UTC\<close>
  "clock_minute t = (Unix t div 60) mod 60"

text \<open>Strings are byte lists, as Go's are.\<close>

fun HasPrefix :: "string \<Rightarrow> string \<Rightarrow> bool" where
  "HasPrefix s [] = True"
| "HasPrefix [] (p # ps) = False"
| "HasPrefix (c # s) (p # ps) = (c = p \<and> HasPrefix s ps)"

fun Contains :: "string \<Rightarrow> string \<Rightarrow> bool" where
  "Contains [] sub = (sub = [])"
| "Contains (c # s) sub = (HasPrefix (c # s) sub \<or> Contains s sub)"

fun Split :: "string \<Rightarrow> char \<Rightarrow> string list" where
  \<comment> \<open>\<^verbatim>\<open>strings.Split(s, sep)\<close> for a separator of one byte\<close>
  "Split [] sep = [[]]"
| "Split (c # s) sep =
     (if c = sep then [] # Split s sep
      else (case Split s sep of [] \<Rightarrow> [[c]] | p # ps \<Rightarrow> (c # p) # ps))"

fun Cut :: "string \<Rightarrow> char \<Rightarrow> string \<times> string \<times> bool" where
  \<comment> \<open>\<^verbatim>\<open>strings.Cut(s, sep)\<close> for a separator of one byte\<close>
  "Cut [] sep = ([], [], False)"
| "Cut (c # s) sep =
     (if c = sep then ([], s, True)
      else (case Cut s sep of (before, after, found) \<Rightarrow>
              if found then (c # before, after, True) else (c # s, [], False)))"

fun Join :: "string list \<Rightarrow> string \<Rightarrow> string" where
  "Join [] sep = []"
| "Join [x] sep = x"
| "Join (x # y # ys) sep = x @ sep @ Join (y # ys) sep"

definition space_runes :: "string list" where
  \<comment> \<open>the UTF-8 encodings of the code points with Unicode's White Space property,
      which \<^verbatim>\<open>strings.TrimSpace\<close> removes\<close>
  "space_runes =
     [[CHR 0x09], [CHR 0x0A], [CHR 0x0B], [CHR 0x0C], [CHR 0x0D], [CHR 0x20],
      [CHR 0xC2, CHR 0x85], [CHR 0xC2, CHR 0xA0], [CHR 0xE1, CHR 0x9A, CHR 0x80],
      [CHR 0xE2, CHR 0x80, CHR 0x80], [CHR 0xE2, CHR 0x80, CHR 0x81],
      [CHR 0xE2, CHR 0x80, CHR 0x82], [CHR 0xE2, CHR 0x80, CHR 0x83],
      [CHR 0xE2, CHR 0x80, CHR 0x84], [CHR 0xE2, CHR 0x80, CHR 0x85],
      [CHR 0xE2, CHR 0x80, CHR 0x86], [CHR 0xE2, CHR 0x80, CHR 0x87],
      [CHR 0xE2, CHR 0x80, CHR 0x88], [CHR 0xE2, CHR 0x80, CHR 0x89],
      [CHR 0xE2, CHR 0x80, CHR 0x8A], [CHR 0xE2, CHR 0x80, CHR 0xA8],
      [CHR 0xE2, CHR 0x80, CHR 0xA9], [CHR 0xE2, CHR 0x80, CHR 0xAF],
      [CHR 0xE2, CHR 0x81, CHR 0x9F], [CHR 0xE3, CHR 0x80, CHR 0x80]]"

fun drop_rune :: "string list \<Rightarrow> string \<Rightarrow> string option" where
  \<comment> \<open>the rest of \<open>s\<close> after the first of the given encodings that starts it\<close>
  "drop_rune [] s = None"
| "drop_rune (r # rs) s =
     (if HasPrefix s r then Some (drop (length r) s) else drop_rune rs s)"

fun trim_runes :: "string list \<Rightarrow> nat \<Rightarrow> string \<Rightarrow> string" where
  \<comment> \<open>removes leading runes of the given encodings; the counter bounds the number of
      runes removed, and \<open>length s\<close> is enough for any \<open>s\<close>\<close>
  "trim_runes rs 0 s = s"
| "trim_runes rs (Suc n) s =
     (case drop_rune rs s of None \<Rightarrow> s | Some t \<Rightarrow> trim_runes rs n t)"

definition TrimSpace :: "string \<Rightarrow> string" where
  \<comment> \<open>the right end is trimmed on the reversed string, with the encodings reversed\<close>
  "TrimSpace s =
     (let l = trim_runes space_runes (length s) s
      in rev (trim_runes (map rev space_runes) (length l) (rev l)))"

fun digits :: "nat \<Rightarrow> string" where
  "digits n =
     (if n < 10 then [''0123456789'' ! n]
      else digits (n div 10) @ [''0123456789'' ! (n mod 10)])"

definition Itoa :: "int \<Rightarrow> string" where
  \<comment> \<open>the verb \<^verbatim>\<open>%d\<close> of \<^verbatim>\<open>fmt.Sprintf\<close>\<close>
  "Itoa i = (if i < 0 then CHR ''-'' # digits (nat (- i)) else digits (nat i))"

section \<open>The Redis server, as the go-redis client sees it\<close>

text \<open>
  The service, the IP manager and the limiter hold the same \<^verbatim>\<open>*redis.Client\<close>.
  The server behind it is one value of type \<open>redis\<close> that every operation takes and
  returns; a nil client is \<open>None\<close>. While \<open>failing\<close> holds every command comes
  back with an error and changes nothing. A key whose expiry has passed is absent.
  A sorted set maps members to scores; the members this program adds are integers
  (\<^verbatim>\<open>UnixNano\<close> values).
\<close>

datatype error =
    RedisUnavailable
  | WrongType
  | ConflictWhitelisted string
      \<comment> \<open>\<^verbatim>\<open>fmt.Errorf("cannot blacklist whitelisted IP: %s", ip)\<close>\<close>
  | BindError

datatype rvalue = RString string | RZSet "(int \<times> int) list"

record redis =
  failing :: bool
  db :: "(string \<times> rvalue \<times> int option) list"

definition redis_lookup :: "redis \<Rightarrow> int \<Rightarrow> string \<Rightarrow> (rvalue \<times> int option) option" where
  "redis_lookup r now k =
     (case map_of (db r) k of
        None \<Rightarrow> None
      | Some (v, None) \<Rightarrow> Some (v, None)
      | Some (v, Some e) \<Rightarrow> if e \<le> now then None else Some (v, Some e))"

definition redis_Exists :: "redis \<Rightarrow> int \<Rightarrow> string \<Rightarrow> error + int" where
  "redis_Exists r now k =
     (if failing r then Inl RedisUnavailable
      else Inr (case redis_lookup r now k of None \<Rightarrow> 0 | Some _ \<Rightarrow> 1))"

definition usePrecise :: "int \<Rightarrow> bool" where
  "usePrecise dur = (dur < Second \<or> dur mod Second \<noteq> 0)"

definition formatMs :: "int \<Rightarrow> int" where
  "formatMs dur = (if 0 < dur \<and> dur < Millisecond then 1 else dur sdiv Millisecond)"

definition formatSec :: "int \<Rightarrow> int" where
  "formatSec dur = (if 0 < dur \<and> dur < Second then 1 else dur sdiv Second)"

definition KeepTTL :: int where
  "KeepTTL = - 1"

definition redis_Set :: "redis \<Rightarrow> int \<Rightarrow> string \<Rightarrow> string \<Rightarrow> int \<Rightarrow> error option \<times> redis" where
  \<comment> \<open>\<^verbatim>\<open>client.Set(ctx, key, value, expiration)\<close>: \<^verbatim>\<open>PX\<close> or \<^verbatim>\<open>EX\<close> for a positive
      expiration, \<^verbatim>\<open>KEEPTTL\<close> for \<^verbatim>\<open>KeepTTL\<close>, no expiry otherwise\<close>
  "redis_Set r now k v expiration =
     (if failing r then (Some RedisUnavailable, r)
      else
        let e = (if 0 < expiration then
                   (if usePrecise expiration
                    then Some (now + formatMs expiration * Millisecond)
                    else Some (now + formatSec expiration * Second))
                 else if expiration = KeepTTL then
                   (case redis_lookup r now k of None \<Rightarrow> None | Some (_, old) \<Rightarrow> old)
                 else None)
        in (None, r\<lparr>db := AList.update k (RString v, e) (db r)\<rparr>))"

definition redis_Del :: "redis \<Rightarrow> int \<Rightarrow> string \<Rightarrow> error option \<times> redis" where
  "redis_Del r now k =
     (if failing r then (Some RedisUnavailable, r)
      else (None, r\<lparr>db := AList.delete k (db r)\<rparr>))"

text \<open>
  The four commands of the limiter's pipeline. Each gives its reply (an error or an
  integer) and the server after it.
\<close>

definition redis_ZRemRangeByScore :: "redis \<Rightarrow> int \<Rightarrow> string \<Rightarrow> int \<Rightarrow> int \<Rightarrow> (error + int) \<times> redis" where
  "redis_ZRemRangeByScore r now k lo hi =
     (case redis_lookup r now k of
        None \<Rightarrow> (Inr 0, r)
      | Some (RString _, _) \<Rightarrow> (Inl WrongType, r)
      | Some (RZSet z, e) \<Rightarrow>
          let keep = filter (\<lambda>(m, sc). \<not> (lo \<le> sc \<and> sc \<le> hi)) z;
              removed = int (length z) - int (length keep)
          in if keep = [] then (Inr removed, r\<lparr>db := AList.delete k (db r)\<rparr>)
             else (Inr removed, r\<lparr>db := AList.update k (RZSet keep, e) (db r)\<rparr>))"

definition redis_ZCard :: "redis \<Rightarrow> int \<Rightarrow> string \<Rightarrow> (error + int) \<times> redis" where
  "redis_ZCard r now k =
     (case redis_lookup r now k of
        None \<Rightarrow> (Inr 0, r)
      | Some (RString _, _) \<Rightarrow> (Inl WrongType, r)
      | Some (RZSet z, _) \<Rightarrow> (Inr (int (length z)), r))"

definition redis_ZAdd :: "redis \<Rightarrow> int \<Rightarrow> string \<Rightarrow> int \<Rightarrow> int \<Rightarrow> (error + int) \<times> redis" where
  \<comment> \<open>a member already in the set keeps its place and takes the new score\<close>
  "redis_ZAdd r now k score member =
     (case redis_lookup r now k of
        None \<Rightarrow> (Inr 1, r\<lparr>db := AList.update k (RZSet [(member, score)], None) (db r)\<rparr>)
      | Some (RString _, _) \<Rightarrow> (Inl WrongType, r)
      | Some (RZSet z, e) \<Rightarrow>
          (Inr (if map_of z member = None then 1 else 0),
           r\<lparr>db := AList.update k (RZSet (AList.update member score z), e) (db r)\<rparr>))"

definition redis_Expire :: "redis \<Rightarrow> int \<Rightarrow> string \<Rightarrow> int \<Rightarrow> (error + int) \<times> redis" where
  \<comment> \<open>\<^verbatim>\<open>EXPIRE key formatSec(expiration)\<close>; a timeout that is not positive deletes the key\<close>
  "redis_Expire r now k expiration =
     (case redis_lookup r now k of
        None \<Rightarrow> (Inr 0, r)
      | Some (v, _) \<Rightarrow>
          let secs = formatSec expiration
          in if secs \<le> 0 then (Inr 1, r\<lparr>db := AList.delete k (db r)\<rparr>)
             else (Inr 1, r\<lparr>db := AList.update k (v, Some (now + secs * Second)) (db r)\<rparr>))"

section \<open>Package blacklist: the IP manager\<close>

text \<open>
  Go maps are association lists with one entry per key, built with
  \<^const>\<open>AList.update\<close> and \<^const>\<open>AList.delete\<close>; reading a key that is absent
  gives the zero value of the element type, as in Go.
\<close>

record IPManager =
  blacklistedIPs :: "(string \<times> int) list"
  whitelistedIPs :: "(string \<times> bool) list"
  autoBlacklist :: bool
  threshold :: int
  blacklistDur :: int
  redisPrefix :: string

definition NewIPManager :: "bool \<Rightarrow> int \<Rightarrow> int \<Rightarrow> IPManager" where
  "NewIPManager auto thr dur =
     \<lparr>blacklistedIPs = [], whitelistedIPs = [], autoBlacklist = auto, threshold = thr,
      blacklistDur = dur, redisPrefix = ''blacklist:''\<rparr>"

definition index_bool :: "(string \<times> bool) list \<Rightarrow> string \<Rightarrow> bool" where
  \<comment> \<open>\<^verbatim>\<open>m[k]\<close> on a \<^verbatim>\<open>map[string]bool\<close>\<close>
  "index_bool m k = (case map_of m k of None \<Rightarrow> False | Some b \<Rightarrow> b)"

definition IsWhitelisted :: "IPManager \<Rightarrow> redis option \<Rightarrow> int \<Rightarrow> string \<Rightarrow> bool" where
  "IsWhitelisted im client now ip =
     (if index_bool (whitelistedIPs im) ip then True
      else (case client of
              Some r \<Rightarrow>
                (case redis_Exists r now (''whitelist:'' @ ip) of
                   Inl err \<Rightarrow> False
                 | Inr n \<Rightarrow> 0 < n)
            | None \<Rightarrow> False))"

definition blacklist_in_redis :: "IPManager \<Rightarrow> redis option \<Rightarrow> int \<Rightarrow> string \<Rightarrow> bool" where
  \<comment> \<open>the last step of \<^verbatim>\<open>IsBlacklisted\<close>: the lookup in Redis\<close>
  "blacklist_in_redis im client now ip =
     (case client of
        Some r \<Rightarrow>
          (case redis_Exists r now (redisPrefix im @ ip) of
             Inl err \<Rightarrow> False
           | Inr n \<Rightarrow> 0 < n)
      | None \<Rightarrow> False)"

definition IsBlacklisted :: "IPManager \<Rightarrow> redis option \<Rightarrow> int \<Rightarrow> string \<Rightarrow> bool \<times> IPManager" where
  \<comment> \<open>also returns the manager: an expired entry is removed from the local cache\<close>
  "IsBlacklisted im client now ip =
     (if IsWhitelisted im client now ip then (False, im)
      else (case map_of (blacklistedIPs im) ip of
              Some expiry \<Rightarrow>
                if now < expiry then (True, im)
                else
                  (let im' = im\<lparr>blacklistedIPs := AList.delete ip (blacklistedIPs im)\<rparr>
                   in (blacklist_in_redis im' client now ip, im'))
            | None \<Rightarrow> (blacklist_in_redis im client now ip, im)))"

definition BlacklistIP :: "IPManager \<Rightarrow> redis option \<Rightarrow> int \<Rightarrow> string \<Rightarrow> int \<Rightarrow> error option \<times> IPManager \<times> redis option" where
  "BlacklistIP im client now ip duration =
     (if index_bool (whitelistedIPs im) ip then (Some (ConflictWhitelisted ip), im, client)
      else
        let expiry = now + duration;
            im' = im\<lparr>blacklistedIPs := AList.update ip expiry (blacklistedIPs im)\<rparr>
        in (case client of
              Some r \<Rightarrow>
                (case redis_Set r now (redisPrefix im @ ip) ''1'' duration of
                   (err, r') \<Rightarrow> (err, im', Some r'))
            | None \<Rightarrow> (None, im', None)))"

definition WhitelistIP :: "IPManager \<Rightarrow> redis option \<Rightarrow> int \<Rightarrow> string \<Rightarrow> error option \<times> IPManager \<times> redis option" where
  "WhitelistIP im client now ip =
     (let im' = im\<lparr>whitelistedIPs := AList.update ip True (whitelistedIPs im)\<rparr>
      in (case client of
            Some r \<Rightarrow>
              (case redis_Set r now (''whitelist:'' @ ip) ''1'' 0 of
                 (err, r') \<Rightarrow> (err, im', Some r'))
          | None \<Rightarrow> (None, im', None)))"

definition RemoveFromBlacklist :: "IPManager \<Rightarrow> redis option \<Rightarrow> int \<Rightarrow> string \<Rightarrow> error option \<times> IPManager \<times> redis option" where
  "RemoveFromBlacklist im client now ip =
     (let im' = im\<lparr>blacklistedIPs := AList.delete ip (blacklistedIPs im)\<rparr>
      in (case client of
            Some r \<Rightarrow>
              (case redis_Del r now (redisPrefix im @ ip) of (err, r') \<Rightarrow> (err, im', Some r'))
          | None \<Rightarrow> (None, im', None)))"

definition RemoveFromWhitelist :: "IPManager \<Rightarrow> redis option \<Rightarrow> int \<Rightarrow> string \<Rightarrow> error option \<times> IPManager \<times> redis option" where
  "RemoveFromWhitelist im client now ip =
     (let im' = im\<lparr>whitelistedIPs := AList.delete ip (whitelistedIPs im)\<rparr>
      in (case client of
            Some r \<Rightarrow>
              (case redis_Del r now (''whitelist:'' @ ip) of (err, r') \<Rightarrow> (err, im', Some r'))
          | None \<Rightarrow> (None, im', None)))"

definition ShouldAutoBlacklist :: "IPManager \<Rightarrow> redis option \<Rightarrow> int \<Rightarrow> string \<Rightarrow> int \<Rightarrow> bool" where
  "ShouldAutoBlacklist im client now ip requestCount =
     (if \<not> autoBlacklist im then False
      else if IsWhitelisted im client now ip then False
      else threshold im < requestCount)"

definition CleanupExpiredEntries_im :: "IPManager \<Rightarrow> int \<Rightarrow> IPManager" where
  "CleanupExpiredEntries_im im now =
     im\<lparr>blacklistedIPs := filter (\<lambda>(ip, expiry). \<not> expiry < now) (blacklistedIPs im)\<rparr>"

section \<open>Package ratelimit\<close>

subsection \<open>The limiter on Redis\<close>

record RedisLimiter =
  rl_limit :: int
  rl_window :: int
  rl_prefix :: string

definition NewRedisLimiter :: "int \<Rightarrow> int \<Rightarrow> RedisLimiter" where
  "NewRedisLimiter n win = \<lparr>rl_limit = n, rl_window = win, rl_prefix = ''rate_limit:''\<rparr>"

definition is_err :: "error + 'a \<Rightarrow> bool" where
  "is_err x = (case x of Inl _ \<Rightarrow> True | Inr _ \<Rightarrow> False)"

definition Val :: "error + int \<Rightarrow> int" where
  \<comment> \<open>\<^verbatim>\<open>cmd.Val()\<close>: the reply, or zero after an error\<close>
  "Val x = (case x of Inl _ \<Rightarrow> 0 | Inr n \<Rightarrow> n)"

definition RedisLimiter_Allow :: "RedisLimiter \<Rightarrow> redis \<Rightarrow> int \<Rightarrow> string \<Rightarrow> bool \<times> redis" where
  \<comment> \<open>\<^verbatim>\<open>pipe.Exec\<close> sends the four queued commands; it fails as a whole when the
      server cannot be reached, and otherwise returns the first error among the replies\<close>
  "RedisLimiter_Allow rl r now key =
     (let redisKey = rl_prefix rl @ key
      in if failing r then (True, r)
         else
           (case redis_ZRemRangeByScore r now redisKey 0 (Unix (now - rl_window rl)) of
              (removed, r1) \<Rightarrow>
           (case redis_ZCard r1 now redisKey of
              (count, r2) \<Rightarrow>
           (case redis_ZAdd r2 now redisKey (Unix now) (UnixNano now) of
              (added, r3) \<Rightarrow>
           (case redis_Expire r3 now redisKey (rl_window rl) of
              (expired, r4) \<Rightarrow>
                if is_err removed \<or> is_err count \<or> is_err added \<or> is_err expired
                then (True, r4)
                else (Val count < rl_limit rl, r4))))))"

subsection \<open>The sliding window in memory\<close>

record SlidingWindowLimiter =
  swl_requests :: "(string \<times> int list) list"
  swl_limit :: int
  swl_window :: int

definition NewSlidingWindowLimiter :: "int \<Rightarrow> int \<Rightarrow> SlidingWindowLimiter" where
  "NewSlidingWindowLimiter n win = \<lparr>swl_requests = [], swl_limit = n, swl_window = win\<rparr>"

definition index_times :: "(string \<times> int list) list \<Rightarrow> string \<Rightarrow> int list" where
  \<comment> \<open>\<^verbatim>\<open>m[k]\<close> on a \<^verbatim>\<open>map[string][]time.Time\<close>: no entry reads as an empty slice\<close>
  "index_times m k = (case map_of m k of None \<Rightarrow> [] | Some ts \<Rightarrow> ts)"

definition SlidingWindowLimiter_Allow :: "SlidingWindowLimiter \<Rightarrow> int \<Rightarrow> string \<Rightarrow> bool \<times> SlidingWindowLimiter" where
  "SlidingWindowLimiter_Allow swl now key =
     (let cutoff = now - swl_window swl;
          requests = index_times (swl_requests swl) key;
          validRequests = filter (\<lambda>reqTime. cutoff < reqTime) requests
      in if swl_limit swl \<le> int (length validRequests) then (False, swl)
         else (True, swl\<lparr>swl_requests :=
                 AList.update key (validRequests @ [now]) (swl_requests swl)\<rparr>))"

subsection \<open>The token bucket\<close>

text \<open>
  The bucket of a key is a \<^verbatim>\<open>*rate.Limiter\<close> of \<^verbatim>\<open>golang.org/x/time/rate\<close>. That
  package is not part of the repository: its two functions the code calls are
  parameters, and \<open>'l\<close> is the state of one of its limiters.
\<close>

record 'l rate_pkg =
  rate_NewLimiter :: "rat \<Rightarrow> int \<Rightarrow> 'l"
  rate_Allow :: "'l \<Rightarrow> int \<Rightarrow> bool \<times> 'l"

record 'l TokenBucketLimiter =
  tbl_limiters :: "(string \<times> 'l) list"
  tbl_limit :: rat
  tbl_burst :: int

definition NewTokenBucketLimiter :: "int \<Rightarrow> int \<Rightarrow> 'l TokenBucketLimiter" where
  "NewTokenBucketLimiter requestsPerMinute burstSize =
     \<lparr>tbl_limiters = [], tbl_limit = of_int requestsPerMinute / 60, tbl_burst = burstSize\<rparr>"

definition TokenBucketLimiter_Allow :: "'l rate_pkg \<Rightarrow> 'l TokenBucketLimiter \<Rightarrow> int \<Rightarrow> string \<Rightarrow> bool \<times> 'l TokenBucketLimiter" where
  "TokenBucketLimiter_Allow pkg tbl now key =
     (let limiter = (case map_of (tbl_limiters tbl) key of
                       Some l \<Rightarrow> l
                     | None \<Rightarrow> rate_NewLimiter pkg (tbl_limit tbl) (tbl_burst tbl))
      in (case rate_Allow pkg limiter now of
            (ok, limiter') \<Rightarrow>
              (ok, tbl\<lparr>tbl_limiters := AList.update key limiter' (tbl_limiters tbl)\<rparr>)))"

subsection \<open>The interface \<^verbatim>\<open>Limiter\<close>\<close>

datatype 'l Limiter =
    TokenBucket "'l TokenBucketLimiter"
  | Redis RedisLimiter
  | SlidingWindow SlidingWindowLimiter

definition Limiter_Allow :: "'l rate_pkg \<Rightarrow> 'l Limiter \<Rightarrow> redis option \<Rightarrow> int \<Rightarrow> string \<Rightarrow> (bool \<times> 'l Limiter \<times> redis option) option" where
  \<comment> \<open>\<open>None\<close>: the limiter on Redis dereferences a nil client and panics\<close>
  "Limiter_Allow pkg limiter client now key =
     (case limiter of
        TokenBucket tbl \<Rightarrow>
          (case TokenBucketLimiter_Allow pkg tbl now key of
             (ok, tbl') \<Rightarrow> Some (ok, TokenBucket tbl', client))
      | Redis rl \<Rightarrow>
          (case client of
             None \<Rightarrow> None
           | Some r \<Rightarrow>
               (case RedisLimiter_Allow rl r now key of
                  (ok, r') \<Rightarrow> Some (ok, Redis rl, Some r')))
      | SlidingWindow swl \<Rightarrow>
          (case SlidingWindowLimiter_Allow swl now key of
             (ok, swl') \<Rightarrow> Some (ok, SlidingWindow swl', client)))"

definition truncate :: "rat \<Rightarrow> int" where
  \<comment> \<open>the conversion \<^verbatim>\<open>int(x)\<close> of a \<^verbatim>\<open>float64\<close>: towards zero\<close>
  "truncate x = (if x < 0 then \<lceil>x\<rceil> else \<lfloor>x\<rfloor>)"

definition Limiter_GetLimit :: "'l Limiter \<Rightarrow> int" where
  "Limiter_GetLimit limiter =
     (case limiter of
        TokenBucket tbl \<Rightarrow> truncate (tbl_limit tbl * 60)
      | Redis rl \<Rightarrow> rl_limit rl
      | SlidingWindow swl \<Rightarrow> swl_limit swl)"

definition Limiter_GetBurst :: "'l Limiter \<Rightarrow> int" where
  "Limiter_GetBurst limiter =
     (case limiter of
        TokenBucket tbl \<Rightarrow> tbl_burst tbl
      | Redis rl \<Rightarrow> rl_window rl sdiv Second
      | SlidingWindow swl \<Rightarrow> swl_window swl sdiv Second)"

section \<open>Regular expressions\<close>

text \<open>
  A compiled \<^verbatim>\<open>*regexp.Regexp\<close> is its syntax tree over bytes. \<^verbatim>\<open>MatchString\<close> asks
  whether some substring belongs to the language of the expression, which is decided
  here with derivatives.
\<close>

datatype cclass =
    Byte char                \<comment> \<open>this byte\<close>
  | OneOf "char list"        \<comment> \<open>one of these bytes\<close>
  | NoneOf "char list"       \<comment> \<open>\<^verbatim>\<open>[^...]\<close>: any byte but these\<close>
  | Dot                      \<comment> \<open>\<^verbatim>\<open>.\<close>: any byte but the newline\<close>
  | AnyByte
  | SpaceClass               \<comment> \<open>\<^verbatim>\<open>\s\<close>\<close>
  | WordClass                \<comment> \<open>\<^verbatim>\<open>\w\<close>\<close>

datatype rx =
    Zero                     \<comment> \<open>matches nothing\<close>
  | One                      \<comment> \<open>matches the empty string\<close>
  | Atom cclass
  | Alt rx rx
  | Seq rx rx
  | Star rx

definition lower_letters :: string where
  "lower_letters = ''abcdefghijklmnopqrstuvwxyz''"

definition upper_letters :: string where
  "upper_letters = ''ABCDEFGHIJKLMNOPQRSTUVWXYZ''"

definition is_lower :: "char \<Rightarrow> bool" where
  "is_lower c = (c \<in> set lower_letters)"

definition is_upper :: "char \<Rightarrow> bool" where
  "is_upper c = (c \<in> set upper_letters)"

definition is_digit :: "char \<Rightarrow> bool" where
  "is_digit c = (c \<in> set ''0123456789'')"

definition to_lower :: "char \<Rightarrow> char" where
  "to_lower c = (case map_of (zip upper_letters lower_letters) c of None \<Rightarrow> c | Some l \<Rightarrow> l)"

definition to_upper :: "char \<Rightarrow> char" where
  "to_upper c = (case map_of (zip lower_letters upper_letters) c of None \<Rightarrow> c | Some u \<Rightarrow> u)"

fun cmatch :: "cclass \<Rightarrow> char \<Rightarrow> bool" where
  "cmatch (Byte b) c = (c = b)"
| "cmatch (OneOf bs) c = (c \<in> set bs)"
| "cmatch (NoneOf bs) c = (c \<notin> set bs)"
| "cmatch Dot c = (c \<noteq> CHR 0x0A)"
| "cmatch AnyByte c = True"
| "cmatch SpaceClass c = (c \<in> set [CHR 0x09, CHR 0x0A, CHR 0x0C, CHR 0x0D, CHR 0x20])"
| "cmatch WordClass c = (is_digit c \<or> is_upper c \<or> is_lower c \<or> c = CHR ''_'')"

fun nullable :: "rx \<Rightarrow> bool" where
  "nullable Zero = False"
| "nullable One = True"
| "nullable (Atom a) = False"
| "nullable (Alt r s) = (nullable r \<or> nullable s)"
| "nullable (Seq r s) = (nullable r \<and> nullable s)"
| "nullable (Star r) = True"

fun alt :: "rx \<Rightarrow> rx \<Rightarrow> rx" where
  \<comment> \<open>\<open>Alt\<close> without the branches that match nothing\<close>
  "alt Zero s = s"
| "alt r Zero = r"
| "alt r s = (if r = s then r else Alt r s)"

fun seq :: "rx \<Rightarrow> rx \<Rightarrow> rx" where
  "seq Zero s = Zero"
| "seq r Zero = Zero"
| "seq One s = s"
| "seq r s = Seq r s"

fun deriv :: "char \<Rightarrow> rx \<Rightarrow> rx" where
  \<comment> \<open>what may follow the byte \<open>c\<close>\<close>
  "deriv c Zero = Zero"
| "deriv c One = Zero"
| "deriv c (Atom a) = (if cmatch a c then One else Zero)"
| "deriv c (Alt r s) = alt (deriv c r) (deriv c s)"
| "deriv c (Seq r s) =
     (if nullable r then alt (seq (deriv c r) s) (deriv c s) else seq (deriv c r) s)"
| "deriv c (Star r) = seq (deriv c r) (Star r)"

fun full_match :: "rx \<Rightarrow> string \<Rightarrow> bool" where
  "full_match r [] = nullable r"
| "full_match r (c # s) = full_match (deriv c r) s"

definition MatchString :: "rx \<Rightarrow> string \<Rightarrow> bool" where
  \<comment> \<open>\<^verbatim>\<open>re.MatchString(s)\<close>: the expression is not anchored\<close>
  "MatchString r s = full_match (Seq (Star (Atom AnyByte)) (Seq r (Star (Atom AnyByte)))) s"

text \<open>
  Builders for the syntax the patterns of this program use. Under the flag
  \<^verbatim>\<open>(?i)\<close> a letter matches both of its cases, and Go folds by Unicode's simple
  case folding: \<open>k\<close> also matches the Kelvin sign (U+212A) and \<open>s\<close> the long s
  (U+017F), here in their UTF-8 encodings.
\<close>

fun bytes :: "string \<Rightarrow> rx" where
  \<comment> \<open>a literal, case-sensitive\<close>
  "bytes [] = One"
| "bytes [c] = Atom (Byte c)"
| "bytes (c # s) = Seq (Atom (Byte c)) (bytes s)"

definition fold_letter :: "char \<Rightarrow> rx" where
  "fold_letter c =
     (if c = CHR ''k'' \<or> c = CHR ''K'' then
        Alt (Atom (OneOf [CHR ''k'', CHR ''K''])) (bytes [CHR 0xE2, CHR 0x84, CHR 0xAA])
      else if c = CHR ''s'' \<or> c = CHR ''S'' then
        Alt (Atom (OneOf [CHR ''s'', CHR ''S''])) (bytes [CHR 0xC5, CHR 0xBF])
      else (case map_of (zip lower_letters upper_letters) c of
              Some u \<Rightarrow> Atom (OneOf [c, u])
            | None \<Rightarrow>
                (case map_of (zip upper_letters lower_letters) c of
                   Some l \<Rightarrow> Atom (OneOf [l, c])
                 | None \<Rightarrow> Atom (Byte c))))"

fun lit_i :: "string \<Rightarrow> rx" where
  \<comment> \<open>a literal under \<^verbatim>\<open>(?i)\<close>\<close>
  "lit_i [] = One"
| "lit_i [c] = fold_letter c"
| "lit_i (c # s) = Seq (fold_letter c) (lit_i s)"

fun alts :: "rx list \<Rightarrow> rx" where
  "alts [] = Zero"
| "alts [r] = r"
| "alts (r # rs) = Alt r (alts rs)"

fun seqs :: "rx list \<Rightarrow> rx" where
  "seqs [] = One"
| "seqs [r] = r"
| "seqs (r # rs) = Seq r (seqs rs)"

definition plus :: "rx \<Rightarrow> rx" where
  "plus r = Seq r (Star r)"

definition word_i :: rx where
  \<comment> \<open>\<^verbatim>\<open>\w\<close> under \<^verbatim>\<open>(?i)\<close>: the class is closed under case folding\<close>
  "word_i = alts [Atom WordClass, bytes [CHR 0xE2, CHR 0x84, CHR 0xAA], bytes [CHR 0xC5, CHR 0xBF]]"

section \<open>HTTP requests\<close>

text \<open>
  An \<^verbatim>\<open>http.Header\<close> is a Go map from field names to the list of their values.
  Indexing it (\<^verbatim>\<open>h[key]\<close>) reads the key as it is written; \<^verbatim>\<open>h.Get(key)\<close> and
  \<^verbatim>\<open>h.Add(key, value)\<close> first bring the key to its canonical form
  (\<^verbatim>\<open>textproto.CanonicalMIMEHeaderKey\<close>), and so does the server when it reads the
  header of a request.
\<close>

type_synonym Header = "(string \<times> string list) list"

definition validHeaderFieldByte :: "char \<Rightarrow> bool" where
  "validHeaderFieldByte c =
     (is_digit c \<or> is_lower c \<or> is_upper c \<or> c \<in> set ''!#$%&*+-.^_`|~'' \<or> c = CHR 0x27)"

fun canonical_from :: "bool \<Rightarrow> string \<Rightarrow> string" where
  \<comment> \<open>the first letter and every letter after a hyphen in upper case, the others in lower case\<close>
  "canonical_from upper [] = []"
| "canonical_from upper (c # s) =
     (if upper then to_upper c else to_lower c) # canonical_from (c = CHR ''-'') s"

fun all_valid :: "string \<Rightarrow> bool" where
  "all_valid [] = True"
| "all_valid (c # s) = (validHeaderFieldByte c \<and> all_valid s)"

definition CanonicalMIMEHeaderKey :: "string \<Rightarrow> string" where
  \<comment> \<open>a key with a byte that is not allowed in a field name is returned unchanged\<close>
  "CanonicalMIMEHeaderKey s = (if all_valid s then canonical_from True s else s)"

definition index_values :: "Header \<Rightarrow> string \<Rightarrow> string list" where
  \<comment> \<open>\<^verbatim>\<open>h[key]\<close>\<close>
  "index_values h key = (case map_of h key of None \<Rightarrow> [] | Some vs \<Rightarrow> vs)"

definition Header_Get :: "Header \<Rightarrow> string \<Rightarrow> string" where
  "Header_Get h key =
     (case index_values h (CanonicalMIMEHeaderKey key) of [] \<Rightarrow> [] | v # _ \<Rightarrow> v)"

definition Header_Add :: "Header \<Rightarrow> string \<Rightarrow> string \<Rightarrow> Header" where
  "Header_Add h key v =
     (let k = CanonicalMIMEHeaderKey key in AList.update k (index_values h k @ [v]) h)"

record Request =
  Method :: string
  URL_Path :: string
  URL_RawQuery :: string
  Header :: Header
  ContentLength :: int
  RemoteAddr :: string

definition UserAgent :: "Request \<Rightarrow> string" where
  "UserAgent req = Header_Get (Header req) ''User-Agent''"

section \<open>Package filter: the request filter\<close>

record RequestFilter =
  maxRequestSize :: int
  suspiciousHeaders :: "string list"
  blockedUserAgents :: "string list"
  blockedUserAgentRe :: "rx list"
  maliciousPatterns :: "rx list"
  requestHistory :: "(string \<times> int list) list"
  historyWindow :: int
  maxRequestsPerWindow :: int

record FilterResult =
  Allowed :: bool
  Reason :: string
  RiskScore :: int
  Blocked :: bool
  ShouldLog :: bool

text \<open>
  The patterns of \<^verbatim>\<open>initMaliciousPatterns\<close>, in the order of the source:
  \<^enum> \<^verbatim>\<open>(?i)(union|select|insert|update|delete|drop|create|alter|exec|execute).*from\<close>
  \<^enum> \<^verbatim>\<open>(?i)(or|and).*1\s*=\s*1\<close>
  \<^enum> \<^verbatim>\<open>(?i)(or|and).*'1'\s*=\s*'1'\<close>
  \<^enum> \<^verbatim>\<open>(?i)<script[^>]*>.*</script>\<close>
  \<^enum> \<^verbatim>\<open>(?i)javascript:\<close>
  \<^enum> \<^verbatim>\<open>(?i)on\w+\s*=\<close>
  \<^enum> \<^verbatim>\<open>\.\./\<close>
  \<^enum> \<^verbatim>\<open>\.\.\\\<close> (two dots and a backslash)
  \<^enum> \<^verbatim>\<open>(?i)(cmd|command|exec|system|shell)\<close>
  \<^enum> \<^verbatim>\<open>\.(php|asp|jsp|cgi|sh|bat|exe|scr)\<close>
  \<^enum> \<^verbatim>\<open>(?i)(nmap|nikto|sqlmap|burp|w3af|nessus)\<close>

  All of them compile, so all eleven are in the list.
\<close>

definition initMaliciousPatterns :: "rx list" where
  "initMaliciousPatterns =
    [seqs [alts (map lit_i [''union'', ''select'', ''insert'', ''update'', ''delete'',
                             ''drop'', ''create'', ''alter'', ''exec'', ''execute'']),
           Star (Atom Dot), lit_i ''from''],
     seqs [alts [lit_i ''or'', lit_i ''and''], Star (Atom Dot), bytes ''1'',
           Star (Atom SpaceClass), bytes ''='', Star (Atom SpaceClass), bytes ''1''],
     seqs [alts [lit_i ''or'', lit_i ''and''], Star (Atom Dot),
           bytes [CHR 0x27, CHR ''1'', CHR 0x27],
           Star (Atom SpaceClass), bytes ''='', Star (Atom SpaceClass),
           bytes [CHR 0x27, CHR ''1'', CHR 0x27]],
     seqs [lit_i ''<script'', Star (Atom (NoneOf ''>'')), bytes ''>'', Star (Atom Dot),
           lit_i ''</script>''],
     lit_i ''javascript:'',
     seqs [lit_i ''on'', plus word_i, Star (Atom SpaceClass), bytes ''=''],
     bytes ''../'',
     bytes [CHR ''.'', CHR ''.'', CHR 0x5C],
     alts (map lit_i [''cmd'', ''command'', ''exec'', ''system'', ''shell'']),
     seqs [bytes ''.'', alts (map bytes [''php'', ''asp'', ''jsp'', ''cgi'', ''sh'', ''bat'',
                                         ''exe'', ''scr''])],
     alts (map lit_i [''nmap'', ''nikto'', ''sqlmap'', ''burp'', ''w3af'', ''nessus''])]"

definition NewRequestFilter :: "(string \<Rightarrow> rx option) \<Rightarrow> int \<Rightarrow> string list \<Rightarrow> string list \<Rightarrow> RequestFilter" where
  \<comment> \<open>\<open>compile\<close> is \<^verbatim>\<open>regexp.Compile\<close>, which reads the configured user agents; a
      pattern that does not compile is skipped\<close>
  "NewRequestFilter compile maxSize suspicious blocked =
     \<lparr>maxRequestSize = maxSize, suspiciousHeaders = suspicious, blockedUserAgents = blocked,
      blockedUserAgentRe = List.map_filter (\<lambda>ua. compile (''(?i)'' @ ua)) blocked,
      maliciousPatterns = initMaliciousPatterns, requestHistory = [],
      historyWindow = 5 * Minute, maxRequestsPerWindow = 100\<rparr>"

fun any_match :: "rx list \<Rightarrow> string \<Rightarrow> bool" where
  \<comment> \<open>the loop over compiled patterns, returning at the first match\<close>
  "any_match [] text = False"
| "any_match (re # res) text = (if MatchString re text then True else any_match res text)"

definition isBlockedUserAgent :: "RequestFilter \<Rightarrow> string \<Rightarrow> bool" where
  "isBlockedUserAgent rf userAgent = any_match (blockedUserAgentRe rf) userAgent"

definition hasMaliciousPattern :: "RequestFilter \<Rightarrow> string \<Rightarrow> bool" where
  "hasMaliciousPattern rf text = any_match (maliciousPatterns rf) text"

fun any_value :: "(string \<Rightarrow> bool) \<Rightarrow> string list \<Rightarrow> bool" where
  "any_value P [] = False"
| "any_value P (v # vs) = (if P v then True else any_value P vs)"

fun any_field :: "(string \<Rightarrow> bool) \<Rightarrow> Header \<Rightarrow> bool" where
  \<comment> \<open>the loop over all fields and all their values\<close>
  "any_field P [] = False"
| "any_field P ((k, vs) # h) = (if any_value P vs then True else any_field P h)"

fun any_duplicated :: "string list \<Rightarrow> Header \<Rightarrow> bool" where
  "any_duplicated [] headers = False"
| "any_duplicated (header # hs) headers =
     (if 1 < length (index_values headers header) then True else any_duplicated hs headers)"

definition hasHeaderManipulation :: "Header \<Rightarrow> bool" where
  "hasHeaderManipulation headers =
     (let singleValueHeaders = [''host'', ''content-type'', ''content-length'']
      in if any_duplicated singleValueHeaders headers then True
         else any_field (\<lambda>v. Contains v [CHR 0x00]) headers)"

fun suspicious_among :: "RequestFilter \<Rightarrow> string list \<Rightarrow> Header \<Rightarrow> string list" where
  \<comment> \<open>the first loop of \<^verbatim>\<open>checkSuspiciousHeaders\<close>\<close>
  "suspicious_among rf [] headers = []"
| "suspicious_among rf (header # hs) headers =
     (case map_of headers header of
        Some vs \<Rightarrow>
          if any_value (hasMaliciousPattern rf) vs
          then header # suspicious_among rf hs headers
          else suspicious_among rf hs headers
      | None \<Rightarrow> suspicious_among rf hs headers)"

definition checkSuspiciousHeaders :: "RequestFilter \<Rightarrow> Header \<Rightarrow> string list" where
  "checkSuspiciousHeaders rf headers =
     suspicious_among rf (suspiciousHeaders rf) headers
     @ (if hasHeaderManipulation headers then [''header_manipulation''] else [])"

definition isHighFrequency :: "RequestFilter \<Rightarrow> int \<Rightarrow> string \<Rightarrow> bool" where
  "isHighFrequency rf now ip =
     (let cutoff = now - historyWindow rf
      in case map_of (requestHistory rf) ip of
           None \<Rightarrow> False
         | Some requests \<Rightarrow>
             maxRequestsPerWindow rf < int (length (filter (\<lambda>reqTime. cutoff < reqTime) requests)))"

definition updateRequestHistory :: "RequestFilter \<Rightarrow> int \<Rightarrow> string \<Rightarrow> RequestFilter" where
  "updateRequestHistory rf now ip =
     (let cutoff = now - historyWindow rf;
          requests = index_times (requestHistory rf) ip;
          validRequests = filter (\<lambda>reqTime. cutoff < reqTime) requests
      in rf\<lparr>requestHistory := AList.update ip (validRequests @ [now]) (requestHistory rf)\<rparr>)"

fun fold_ascii :: "string \<Rightarrow> string" where
  \<comment> \<open>the letters in lower case, and the two code points beyond ASCII that simple case
      folding identifies with a letter (the long s and the Kelvin sign) as that letter\<close>
  "fold_ascii [] = []"
| "fold_ascii (c # s) =
     (if HasPrefix (c # s) [CHR 0xC5, CHR 0xBF] then CHR ''s'' # fold_ascii (drop 1 s)
      else if HasPrefix (c # s) [CHR 0xE2, CHR 0x84, CHR 0xAA] then CHR ''k'' # fold_ascii (drop 2 s)
      else to_lower c # fold_ascii s)"

definition EqualFold :: "string \<Rightarrow> string \<Rightarrow> bool" where
  \<comment> \<open>\<^verbatim>\<open>strings.EqualFold(s, t)\<close> for an ASCII string \<open>t\<close>\<close>
  "EqualFold s t = (fold_ascii s = map to_lower t)"

definition isSuspiciousMethod :: "string \<Rightarrow> bool" where
  "isSuspiciousMethod m =
     any_value (\<lambda>suspicious. EqualFold m suspicious) [''TRACE'', ''DEBUG'', ''OPTIONS'']"

definition hasMissingHeaders :: "Header \<Rightarrow> bool" where
  "hasMissingHeaders headers =
     any_value (\<lambda>header. Header_Get headers header = []) [''user-agent'']"

definition FilterRequest :: "RequestFilter \<Rightarrow> int \<Rightarrow> Request \<Rightarrow> FilterResult \<times> RequestFilter" where
  "FilterRequest rf now req =
     (let result = \<lparr>Allowed = True, Reason = ''Request allowed'', RiskScore = 0,
                    Blocked = False, ShouldLog = False\<rparr>
      in
      if maxRequestSize rf < ContentLength req then
        (result\<lparr>Allowed := False, Reason := ''Request size exceeds limit'',
                RiskScore := RiskScore result + 50, Blocked := True\<rparr>, rf)
      else if isBlockedUserAgent rf (UserAgent req) then
        (result\<lparr>Allowed := False, Reason := ''Blocked user agent'',
                RiskScore := RiskScore result + 30, Blocked := True\<rparr>, rf)
      else
        let suspicious = checkSuspiciousHeaders rf (Header req);
            result = (if 0 < length suspicious
                      then result\<lparr>RiskScore := RiskScore result + int (length suspicious) * 10,
                                  ShouldLog := True,
                                  Reason := ''Suspicious headers: '' @ Join suspicious '', ''\<rparr>
                      else result)
        in
        if hasMaliciousPattern rf (URL_Path req @ URL_RawQuery req) then
          (result\<lparr>Allowed := False, Reason := ''Malicious pattern detected in URL'',
                  RiskScore := RiskScore result + 80, Blocked := True\<rparr>, rf)
        else
          let high = isHighFrequency rf now (RemoteAddr req);
              result = (if high
                        then result\<lparr>RiskScore := RiskScore result + 20, ShouldLog := True\<rparr>
                        else result)
          in
          if high \<and> 50 < RiskScore result then
            (result\<lparr>Allowed := False, Reason := ''High frequency requests detected'',
                    Blocked := True\<rparr>, rf)
          else
            let result = (if isSuspiciousMethod (Method req)
                          then result\<lparr>RiskScore := RiskScore result + 15, ShouldLog := True\<rparr>
                          else result);
                result = (if hasMissingHeaders (Header req)
                          then result\<lparr>RiskScore := RiskScore result + 10, ShouldLog := True\<rparr>
                          else result);
                rf' = updateRequestHistory rf now (RemoteAddr req);
                result = (if 100 < RiskScore result
                          then result\<lparr>Allowed := False,
                                      Reason := ''High risk score: '' @ Itoa (RiskScore result),
                                      Blocked := True\<rparr>
                          else result)
            in (result, rf'))"

definition CleanupExpiredEntries_rf :: "RequestFilter \<Rightarrow> int \<Rightarrow> RequestFilter" where
  "CleanupExpiredEntries_rf rf now =
     (let cutoff = now - historyWindow rf
      in rf\<lparr>requestHistory :=
           filter (\<lambda>(ip, requests). requests \<noteq> [])
             (map (\<lambda>(ip, requests). (ip, filter (\<lambda>reqTime. cutoff < reqTime) requests))
                (requestHistory rf))\<rparr>)"

section \<open>Package botnet: the behavioural detector\<close>

text \<open>
  \<^verbatim>\<open>float64\<close> values (the confidence, the detection threshold) are rational numbers
  and their arithmetic is exact. The fields the code never writes after construction
  (\<^verbatim>\<open>geographicData\<close>, \<^verbatim>\<open>requestIntervals\<close> of the detector, the \<^verbatim>\<open>Normal...\<close>
  fields and \<^verbatim>\<open>UniqueIPs\<close> of the global patterns) are left out.
\<close>

record IPBehavior =
  b_IP :: string
  RequestCount :: int
  FirstSeen :: int
  LastSeen :: int
  UserAgents :: "(string \<times> int) list"
  RequestPaths :: "(string \<times> int) list"
  ResponseTimes :: "int list"
  RequestIntervals :: "int list"
  SuspiciousScore :: rat
  HasJavascript :: bool
  HasCSS :: bool
  HasImages :: bool
  HasFavicon :: bool
  HasRobotsTxt :: bool
  HasSitemap :: bool

record GlobalPatterns =
  TotalRequests :: int
  CommonUserAgents :: "(string \<times> int) list"
  CommonPaths :: "(string \<times> int) list"
  GeographicSpread :: "(string \<times> int) list"
  NetworkSpread :: "(string \<times> int) list"

record NetworkStats =
  Network :: string
  IPCount :: int
  ns_RequestCount :: int
  ns_AvgResponseTime :: int
  ns_SuspiciousScore :: rat
  ns_FirstSeen :: int

record BurstPattern =
  StartTime :: int
  EndTime :: int
  bp_IPCount :: int
  bp_RequestCount :: int
  Intensity :: rat
  Coordination :: rat

record BotnetAnalysis =
  ba_IP :: string
  Timestamp :: int
  IsBotnet :: bool
  Confidence :: rat
  Indicators :: "string list"
  ba_RiskScore :: int

record BotnetDetector =
  requestPatterns :: "(string \<times> IPBehavior) list"
  globalPatterns :: GlobalPatterns
  networkRanges :: "(string \<times> NetworkStats) list"
  burstPatterns :: "(string \<times> BurstPattern) list"
  detectionThreshold :: rat
  analysisWindow :: int

definition NewBotnetDetector :: "rat \<Rightarrow> int \<Rightarrow> BotnetDetector" where
  "NewBotnetDetector thr window =
     \<lparr>requestPatterns = [],
      globalPatterns = \<lparr>TotalRequests = 0, CommonUserAgents = [], CommonPaths = [],
                         GeographicSpread = [], NetworkSpread = []\<rparr>,
      networkRanges = [], burstPatterns = [],
      detectionThreshold = thr, analysisWindow = window\<rparr>"

definition increment :: "(string \<times> int) list \<Rightarrow> string \<Rightarrow> (string \<times> int) list" where
  \<comment> \<open>\<^verbatim>\<open>m[k]++\<close> on a \<^verbatim>\<open>map[string]int\<close>\<close>
  "increment m k = AList.update k ((case map_of m k of None \<Rightarrow> 0 | Some n \<Rightarrow> n) + 1) m"

definition getOrCreateIPBehavior :: "BotnetDetector \<Rightarrow> int \<Rightarrow> string \<Rightarrow> IPBehavior" where
  \<comment> \<open>the behaviour the returned pointer refers to; \<^verbatim>\<open>updateIPBehavior\<close> stores it\<close>
  "getOrCreateIPBehavior bd now ip =
     (case map_of (requestPatterns bd) ip of
        Some behavior \<Rightarrow> behavior
      | None \<Rightarrow>
          \<lparr>b_IP = ip, RequestCount = 0, FirstSeen = now, LastSeen = now,
           UserAgents = [], RequestPaths = [], ResponseTimes = [], RequestIntervals = [],
           SuspiciousScore = 0, HasJavascript = False, HasCSS = False, HasImages = False,
           HasFavicon = False, HasRobotsTxt = False, HasSitemap = False\<rparr>)"

definition keep_last_100 :: "int list \<Rightarrow> int list" where
  \<comment> \<open>\<^verbatim>\<open>if len(xs) > 100 { xs = xs[1:] }\<close>\<close>
  "keep_last_100 xs = (if 100 < length xs then tl xs else xs)"

definition updateBehavioralIndicators :: "IPBehavior \<Rightarrow> string \<Rightarrow> IPBehavior" where
  "updateBehavioralIndicators behavior path =
     (let b = (if Contains path ''/static/'' \<or> Contains path ''.js''
               then behavior\<lparr>HasJavascript := True\<rparr> else behavior);
          b = (if Contains path ''.css'' then b\<lparr>HasCSS := True\<rparr> else b);
          b = (if Contains path ''.png'' \<or> Contains path ''.jpg'' \<or> Contains path ''.gif''
               then b\<lparr>HasImages := True\<rparr> else b);
          b = (if Contains path ''favicon.ico'' then b\<lparr>HasFavicon := True\<rparr> else b);
          b = (if Contains path ''robots.txt'' then b\<lparr>HasRobotsTxt := True\<rparr> else b);
          b = (if Contains path ''sitemap.xml'' then b\<lparr>HasSitemap := True\<rparr> else b)
      in b)"

definition updateIPBehavior :: "IPBehavior \<Rightarrow> int \<Rightarrow> string \<Rightarrow> string \<Rightarrow> int \<Rightarrow> IPBehavior" where
  "updateIPBehavior behavior now userAgent path responseTime =
     (let b = (if \<not> IsZero (LastSeen behavior)
               then behavior\<lparr>RequestIntervals :=
                      keep_last_100 (RequestIntervals behavior @ [now - LastSeen behavior])\<rparr>
               else behavior);
          b = b\<lparr>RequestCount := RequestCount b + 1,
                LastSeen := now,
                UserAgents := increment (UserAgents b) userAgent,
                RequestPaths := increment (RequestPaths b) path,
                ResponseTimes := keep_last_100 (ResponseTimes b @ [responseTime])\<rparr>
      in updateBehavioralIndicators b path)"

definition getCountryFromIP :: "string \<Rightarrow> string" where
  "getCountryFromIP ip =
     (case Split ip CHR ''.'' of
        p0 # p1 # _ \<Rightarrow> p0 @ ''.'' @ p1
      | _ \<Rightarrow> ''unknown'')"

definition getNetworkFromIP :: "string \<Rightarrow> string" where
  "getNetworkFromIP ip =
     (case Split ip CHR ''.'' of
        p0 # p1 # p2 # _ \<Rightarrow> p0 @ ''.'' @ p1 @ ''.'' @ p2
      | _ \<Rightarrow> ''unknown'')"

definition updateGlobalPatterns :: "GlobalPatterns \<Rightarrow> string \<Rightarrow> string \<Rightarrow> string \<Rightarrow> GlobalPatterns" where
  "updateGlobalPatterns patterns ip userAgent path =
     patterns\<lparr>TotalRequests := TotalRequests patterns + 1,
              CommonUserAgents := increment (CommonUserAgents patterns) userAgent,
              CommonPaths := increment (CommonPaths patterns) path,
              GeographicSpread := increment (GeographicSpread patterns) (getCountryFromIP ip),
              NetworkSpread := increment (NetworkSpread patterns) (getNetworkFromIP ip)\<rparr>"

definition flag :: "BotnetAnalysis \<Rightarrow> string \<Rightarrow> int \<Rightarrow> BotnetAnalysis" where
  \<comment> \<open>appends the indicator and adds to the risk score\<close>
  "flag analysis indicator risk =
     analysis\<lparr>Indicators := Indicators analysis @ [indicator],
              ba_RiskScore := ba_RiskScore analysis + risk\<rparr>"

definition calculateAverageResponseTime :: "int list \<Rightarrow> int" where
  "calculateAverageResponseTime ts =
     (if length ts = 0 then 0 else sum_list ts sdiv int (length ts))"

definition calculateAverageInterval :: "int list \<Rightarrow> int" where
  "calculateAverageInterval intervals =
     (if length intervals = 0 then 0 else sum_list intervals sdiv int (length intervals))"

definition analyzeBehavior :: "IPBehavior \<Rightarrow> BotnetAnalysis \<Rightarrow> BotnetAnalysis" where
  "analyzeBehavior behavior analysis =
     (let a = (if 20 < RequestCount behavior \<and> \<not> HasJavascript behavior
               then flag analysis ''No JavaScript requests'' 20 else analysis);
          a = (if 20 < RequestCount behavior \<and> \<not> HasCSS behavior
               then flag a ''No CSS requests'' 15 else a);
          a = (if 50 < RequestCount behavior
               then flag a ''Very high request frequency'' 25 else a);
          a = (if 20 < RequestCount behavior \<and> \<not> HasImages behavior
               then flag a ''No image requests'' 10 else a);
          a = (if length (UserAgents behavior) = 1 \<and> 20 < RequestCount behavior
               then flag a ''Single user agent'' 10 else a);
          a = (if 20 < length (ResponseTimes behavior)
                  \<and> calculateAverageResponseTime (ResponseTimes behavior) < 5 * Millisecond
               then flag a ''Suspiciously fast response times'' 15 else a);
          a = (if 20 < length (RequestIntervals behavior)
                  \<and> calculateAverageInterval (RequestIntervals behavior) < 50 * Millisecond
               then flag a ''Suspiciously regular intervals'' 15 else a)
      in a)"

definition analyzeNetwork :: "BotnetDetector \<Rightarrow> int \<Rightarrow> string \<Rightarrow> BotnetAnalysis \<Rightarrow> BotnetAnalysis \<times> BotnetDetector" where
  "analyzeNetwork bd now ip analysis =
     (let network = getNetworkFromIP ip;
          networkStats = (case map_of (networkRanges bd) network of
                            Some st \<Rightarrow> st
                          | None \<Rightarrow> \<lparr>Network = network, IPCount = 0, ns_RequestCount = 0,
                                     ns_AvgResponseTime = 0, ns_SuspiciousScore = 0,
                                     ns_FirstSeen = now\<rparr>);
          networkStats = networkStats\<lparr>IPCount := IPCount networkStats + 1\<rparr>;
          bd' = bd\<lparr>networkRanges := AList.update network networkStats (networkRanges bd)\<rparr>
      in if 100 < IPCount networkStats
         then (flag analysis ''High IP count from network'' 30, bd')
         else (analysis, bd'))"

definition analyzeTiming :: "BotnetDetector \<Rightarrow> int \<Rightarrow> string \<Rightarrow> BotnetAnalysis \<Rightarrow> BotnetAnalysis" where
  "analyzeTiming bd now ip analysis =
     (let windowStart = now - analysisWindow bd;
          requestCount = length (filter (\<lambda>(k, behavior). windowStart < LastSeen behavior)
                                   (requestPatterns bd))
      in if 1000 < requestCount \<and> clock_second now mod 10 = 0
         then flag analysis ''Coordinated timing pattern'' 40
         else analysis)"

definition analyzeGlobalPatterns :: "BotnetDetector \<Rightarrow> BotnetAnalysis \<Rightarrow> BotnetAnalysis" where
  "analyzeGlobalPatterns bd analysis =
     (let patterns = globalPatterns bd;
          a = (if 50 < length (GeographicSpread patterns)
               then flag analysis ''Unusual geographic distribution'' 25 else analysis);
          a = (if 100 < length (NetworkSpread patterns)
               then flag a ''Unusual network distribution'' 30 else a)
      in a)"

definition analyzeCoordination :: "BotnetDetector \<Rightarrow> int \<Rightarrow> string \<Rightarrow> BotnetAnalysis \<Rightarrow> BotnetAnalysis \<times> BotnetDetector" where
  "analyzeCoordination bd now ip analysis =
     (let burstKey = Itoa (clock_minute now) @ ''-'' @ Itoa (clock_second now sdiv 10);
          burst = (case map_of (burstPatterns bd) burstKey of
                     Some b \<Rightarrow> b
                   | None \<Rightarrow> \<lparr>StartTime = now, EndTime = zero_time, bp_IPCount = 0,
                              bp_RequestCount = 0, Intensity = 0, Coordination = 0\<rparr>);
          burst = burst\<lparr>bp_IPCount := bp_IPCount burst + 1, EndTime := now\<rparr>;
          bd' = bd\<lparr>burstPatterns := AList.update burstKey burst (burstPatterns bd)\<rparr>
      in if 100 < bp_IPCount burst
         then (flag analysis ''Coordinated burst attack'' 50, bd')
         else (analysis, bd'))"

definition calculateFinalDecision :: "BotnetDetector \<Rightarrow> BotnetAnalysis \<Rightarrow> BotnetAnalysis" where
  "calculateFinalDecision bd analysis =
     (let baseConfidence = of_int (ba_RiskScore analysis) / 200;
          indicatorBonus = of_nat (length (Indicators analysis)) * 0.05;
          a = analysis\<lparr>Confidence := baseConfidence + indicatorBonus\<rparr>;
          a = (if 1 < Confidence a then a\<lparr>Confidence := 1\<rparr> else a);
          a = a\<lparr>IsBotnet := (detectionThreshold bd \<le> Confidence a)\<rparr>
      in if 300 \<le> ba_RiskScore a
         then (let a = a\<lparr>IsBotnet := True\<rparr>
               in if Confidence a < 0.8 then a\<lparr>Confidence := 0.8\<rparr> else a)
         else a)"

definition AnalyzeRequest :: "BotnetDetector \<Rightarrow> int \<Rightarrow> string \<Rightarrow> string \<Rightarrow> string \<Rightarrow> int \<Rightarrow> BotnetAnalysis \<times> BotnetDetector" where
  "AnalyzeRequest bd now ip userAgent path responseTime =
     (let behavior = updateIPBehavior (getOrCreateIPBehavior bd now ip) now userAgent path
                       responseTime;
          bd = bd\<lparr>requestPatterns := AList.update ip behavior (requestPatterns bd)\<rparr>;
          bd = bd\<lparr>globalPatterns := updateGlobalPatterns (globalPatterns bd) ip userAgent path\<rparr>;
          analysis = \<lparr>ba_IP = ip, Timestamp = now, IsBotnet = False, Confidence = 0,
                       Indicators = [], ba_RiskScore = 0\<rparr>;
          analysis = analyzeBehavior behavior analysis
      in (case analyzeNetwork bd now ip analysis of
            (analysis, bd) \<Rightarrow>
              (let analysis = analyzeTiming bd now ip analysis;
                   analysis = analyzeGlobalPatterns bd analysis
               in (case analyzeCoordination bd now ip analysis of
                     (analysis, bd) \<Rightarrow> (calculateFinalDecision bd analysis, bd)))))"

section \<open>Package monitor: the traffic monitor\<close>

text \<open>
  The alert channel is a queue of capacity 100; a send to a full channel is dropped.
  The Prometheus instruments and the \<^verbatim>\<open>Message\<close> text of an alert, which no decision
  reads, are left out.
\<close>

record Alert =
  Type :: string
  Severity :: string
  al_Timestamp :: int
  al_IP :: string
  al_RequestCount :: int
  al_ResponseTime :: int

record TrafficMonitor =
  requestCounts :: "(string \<times> int) list"
  responseTimes :: "(string \<times> int list) list"
  errorCounts :: "(string \<times> int) list"
  alertThreshold :: int
  sampleRate :: rat
  windowDuration :: int
  alertChan :: "Alert list"

definition NewTrafficMonitor :: "int \<Rightarrow> rat \<Rightarrow> TrafficMonitor" where
  "NewTrafficMonitor thr rate =
     \<lparr>requestCounts = [], responseTimes = [], errorCounts = [], alertThreshold = thr,
      sampleRate = rate, windowDuration = Minute, alertChan = []\<rparr>"

definition send :: "Alert list \<Rightarrow> Alert \<Rightarrow> Alert list" where
  \<comment> \<open>\<^verbatim>\<open>select { case ch <- alert: default: }\<close> on a channel of capacity 100\<close>
  "send ch alert = (if length ch < 100 then ch @ [alert] else ch)"

definition index_int :: "(string \<times> int) list \<Rightarrow> string \<Rightarrow> int" where
  \<comment> \<open>\<^verbatim>\<open>m[k]\<close> on a \<^verbatim>\<open>map[string]int64\<close>\<close>
  "index_int m k = (case map_of m k of None \<Rightarrow> 0 | Some n \<Rightarrow> n)"

definition tm_getClientIP :: "Request \<Rightarrow> string" where
  \<comment> \<open>\<^verbatim>\<open>TrafficMonitor.getClientIP\<close>\<close>
  "tm_getClientIP req =
     (let xff = Header_Get (Header req) ''X-Forwarded-For''
      in if xff \<noteq> [] then xff
         else
           let xri = Header_Get (Header req) ''X-Real-IP''
           in if xri \<noteq> [] then xri else RemoteAddr req)"

definition tm_calculateAverageResponseTime :: "int list \<Rightarrow> int" where
  "tm_calculateAverageResponseTime rts =
     (if length rts = 0 then 0 else sum_list rts sdiv int (length rts))"

definition checkAlerts :: "TrafficMonitor \<Rightarrow> int \<Rightarrow> string \<Rightarrow> TrafficMonitor" where
  "checkAlerts tm now clientIP =
     (let requestCount = index_int (requestCounts tm) clientIP;
          tm = (if alertThreshold tm < requestCount
                then tm\<lparr>alertChan := send (alertChan tm)
                         \<lparr>Type = ''high_request_rate'', Severity = ''warning'',
                          al_Timestamp = now, al_IP = clientIP,
                          al_RequestCount = requestCount, al_ResponseTime = 0\<rparr>\<rparr>
                else tm)
      in (case map_of (responseTimes tm) clientIP of
            Some rts \<Rightarrow>
              if 10 < length rts \<and> tm_calculateAverageResponseTime rts < 10 * Millisecond
              then tm\<lparr>alertChan := send (alertChan tm)
                       \<lparr>Type = ''suspicious_response_time'', Severity = ''info'',
                        al_Timestamp = now, al_IP = clientIP,
                        al_RequestCount = 0,
                        al_ResponseTime = tm_calculateAverageResponseTime rts\<rparr>\<rparr>
              else tm
          | None \<Rightarrow> tm))"

definition RecordRequest :: "TrafficMonitor \<Rightarrow> int \<Rightarrow> Request \<Rightarrow> int \<Rightarrow> int \<Rightarrow> TrafficMonitor" where
  "RecordRequest tm now req responseTime statusCode =
     (let clientIP = tm_getClientIP req;
          tm = tm\<lparr>requestCounts := increment (requestCounts tm) clientIP\<rparr>;
          tm = tm\<lparr>responseTimes :=
                   AList.update clientIP
                     (keep_last_100 (index_times (responseTimes tm) clientIP @ [responseTime]))
                     (responseTimes tm)\<rparr>;
          tm = (if 400 \<le> statusCode
                then tm\<lparr>errorCounts := increment (errorCounts tm) clientIP\<rparr> else tm)
      in checkAlerts tm now clientIP)"

section \<open>Package config\<close>

record RateLimitConfig =
  RequestsPerMinute :: int
  BurstSize :: int
  WindowSize :: int

record IPBlacklistConfig =
  bl_Enabled :: bool
  AutoBlacklistThreshold :: int
  BlacklistDuration :: int
  bl_IPs :: "string list"

record IPWhitelistConfig =
  wl_Enabled :: bool
  wl_IPs :: "string list"

record RequestFilterConfig =
  rf_Enabled :: bool
  MaxRequestSize :: int
  SuspiciousHeaders :: "string list"
  BlockedUserAgents :: "string list"

record MonitoringConfig =
  mon_Enabled :: bool
  AlertThreshold :: int
  SampleRate :: rat

record ProtectionConfig =
  RateLimit :: RateLimitConfig
  IPBlacklist :: IPBlacklistConfig
  IPWhitelist :: IPWhitelistConfig
  RequestFilter_cfg :: RequestFilterConfig
  Monitoring :: MonitoringConfig

record Config =
  Redis_Host :: string
  Protection :: ProtectionConfig

section \<open>Package ddos: the protection service\<close>

text \<open>
  The logger, the health checker and the metrics server take no part in a decision
  and are left out. Requests are handled one at a time.
\<close>

record 'l ProtectionService =
  config :: Config
  rateLimiter :: "'l Limiter"
  ipManager :: IPManager
  requestFilter :: RequestFilter
  trafficMonitor :: TrafficMonitor
  botnetDetector :: BotnetDetector
  redisClient :: "redis option"

definition initRateLimiter :: "'l ProtectionService \<Rightarrow> 'l ProtectionService" where
  "initRateLimiter ps =
     (let rl = RateLimit (Protection (config ps))
      in if redisClient ps \<noteq> None
         then ps\<lparr>rateLimiter :=
                   Redis (NewRedisLimiter (RequestsPerMinute rl) (WindowSize rl * Second))\<rparr>
         else ps\<lparr>rateLimiter :=
                   TokenBucket (NewTokenBucketLimiter (RequestsPerMinute rl) (BurstSize rl))\<rparr>)"

fun whitelist_all :: "IPManager \<Rightarrow> redis option \<Rightarrow> int \<Rightarrow> string list \<Rightarrow> IPManager \<times> redis option" where
  \<comment> \<open>the loop of \<^verbatim>\<open>initIPManager\<close> over the configured addresses; an error is only logged\<close>
  "whitelist_all im client now [] = (im, client)"
| "whitelist_all im client now (ip # ips) =
     (case WhitelistIP im client now ip of
        (err, im', client') \<Rightarrow> whitelist_all im' client' now ips)"

definition initIPManager :: "'l ProtectionService \<Rightarrow> int \<Rightarrow> 'l ProtectionService" where
  "initIPManager ps now =
     (let bl = IPBlacklist (Protection (config ps));
          im = NewIPManager (bl_Enabled bl) (AutoBlacklistThreshold bl)
                 (BlacklistDuration bl * Second)
      in (case whitelist_all im (redisClient ps) now (wl_IPs (IPWhitelist (Protection (config ps)))) of
            (im', client') \<Rightarrow> ps\<lparr>ipManager := im', redisClient := client'\<rparr>))"

definition NewProtectionService :: "(string \<Rightarrow> rx option) \<Rightarrow> Config \<Rightarrow> redis \<Rightarrow> int \<Rightarrow> 'l ProtectionService" where
  \<comment> \<open>\<open>server\<close> is the Redis server at the configured address; the client exists when a
      host is configured, also when the first ping fails\<close>
  "NewProtectionService compile cfg server now =
     (let p = Protection cfg;
          ps = \<lparr>config = cfg,
                rateLimiter = TokenBucket (NewTokenBucketLimiter 0 0),
                ipManager = NewIPManager False 0 0,
                requestFilter =
                  NewRequestFilter compile (MaxRequestSize (RequestFilter_cfg p))
                    (SuspiciousHeaders (RequestFilter_cfg p))
                    (BlockedUserAgents (RequestFilter_cfg p)),
                trafficMonitor =
                  NewTrafficMonitor (AlertThreshold (Monitoring p)) (SampleRate (Monitoring p)),
                botnetDetector = NewBotnetDetector 0.8 (60 * Second),
                redisClient = (if Redis_Host cfg = [] then None else Some server)\<rparr>
      in initIPManager (initRateLimiter ps) now)"

definition handleAlert :: "'l ProtectionService \<Rightarrow> int \<Rightarrow> Alert \<Rightarrow> 'l ProtectionService" where
  "handleAlert ps now alert =
     (if Type alert = ''high_request_rate'' \<and> al_IP alert \<noteq> []
      then (case BlacklistIP (ipManager ps) (redisClient ps) now (al_IP alert)
                   (BlacklistDuration (IPBlacklist (Protection (config ps))) * Second) of
              (err, im', client') \<Rightarrow> ps\<lparr>ipManager := im', redisClient := client'\<rparr>)
      else ps)"

definition processAlerts :: "'l ProtectionService \<Rightarrow> int \<Rightarrow> 'l ProtectionService" where
  \<comment> \<open>the consumer takes the queued alerts in order\<close>
  "processAlerts ps now =
     (let alerts = alertChan (trafficMonitor ps);
          ps = ps\<lparr>trafficMonitor := (trafficMonitor ps)\<lparr>alertChan := []\<rparr>\<rparr>
      in foldl (\<lambda>s alert. handleAlert s now alert) ps alerts)"

definition UpdateRateLimitConfig :: "'l ProtectionService \<Rightarrow> int \<Rightarrow> int \<Rightarrow> error option \<times> 'l ProtectionService" where
  "UpdateRateLimitConfig ps requestsPerMinute burstSize =
     (let cfg = config ps;
          p = Protection cfg;
          rl = (RateLimit p)\<lparr>RequestsPerMinute := requestsPerMinute, BurstSize := burstSize\<rparr>;
          ps = ps\<lparr>config := cfg\<lparr>Protection := p\<lparr>RateLimit := rl\<rparr>\<rparr>\<rparr>
      in (None, initRateLimiter ps))"

definition GetRateLimitConfig :: "'l ProtectionService \<Rightarrow> int \<times> int" where
  \<comment> \<open>the values under \<^verbatim>\<open>requests_per_minute\<close> and \<^verbatim>\<open>burst_size\<close>\<close>
  "GetRateLimitConfig ps = (Limiter_GetLimit (rateLimiter ps), Limiter_GetBurst (rateLimiter ps))"

definition put_rate_limits :: "'l ProtectionService \<Rightarrow> error + (int \<times> int) \<Rightarrow> int \<times> 'l ProtectionService" where
  \<comment> \<open>the handler of \<^verbatim>\<open>PUT /api/v1/config/rate-limits\<close> in \<^verbatim>\<open>setupRoutes\<close>; the second
      argument is what \<^verbatim>\<open>c.ShouldBindJSON\<close> made of the body; the result is the HTTP status\<close>
  "put_rate_limits ps body =
     (case body of
        Inl err \<Rightarrow> (400, ps)
      | Inr (rpm, burst) \<Rightarrow>
          (case UpdateRateLimitConfig ps rpm burst of
             (Some err, ps') \<Rightarrow> (500, ps')
           | (None, ps') \<Rightarrow> (200, ps')))"

definition ps_getClientIP :: "Request \<Rightarrow> string" where
  \<comment> \<open>\<^verbatim>\<open>ProtectionService.getClientIP\<close>; \<^verbatim>\<open>strings.Split\<close> never returns an empty slice\<close>
  "ps_getClientIP req =
     (let xff = Header_Get (Header req) ''X-Forwarded-For'';
          ips = Split xff CHR '','';
          xri = Header_Get (Header req) ''X-Real-IP''
      in if xff \<noteq> [] \<and> 0 < length ips then TrimSpace (hd ips)
         else if xri \<noteq> [] then TrimSpace xri
         else (case Cut (RemoteAddr req) CHR '':'' of
                 (ip, after, found) \<Rightarrow> if \<not> found then RemoteAddr req else ip))"

datatype Decision =
    Forwarded int            \<comment> \<open>\<^verbatim>\<open>c.Next()\<close> ran the handler, which answered with this status\<close>
  | Rejected int string      \<comment> \<open>\<^verbatim>\<open>c.Abort()\<close> after a JSON body with this status and \<^verbatim>\<open>code\<close>\<close>
  | Panicked

definition step5_handler :: "'l ProtectionService \<Rightarrow> int \<Rightarrow> Request \<Rightarrow> int \<times> int \<Rightarrow> Decision \<times> 'l ProtectionService" where
  \<comment> \<open>the handler answers with a status after a latency; the monitor records both\<close>
  "step5_handler ps now req handler =
     (case handler of
        (status, latency) \<Rightarrow>
          (Forwarded status,
           ps\<lparr>trafficMonitor :=
                RecordRequest (trafficMonitor ps) (now + latency) req latency status\<rparr>))"

definition step4_botnet :: "'l ProtectionService \<Rightarrow> int \<Rightarrow> Request \<Rightarrow> string \<Rightarrow> int \<times> int \<Rightarrow> Decision \<times> 'l ProtectionService" where
  \<comment> \<open>\<^verbatim>\<open>time.Since(startTime)\<close> is taken right after \<^verbatim>\<open>startTime\<close>: no time has passed\<close>
  "step4_botnet ps now req clientIP handler =
     (case AnalyzeRequest (botnetDetector ps) now clientIP (UserAgent req) (URL_Path req) 0 of
        (botnetResult, bd') \<Rightarrow>
          (let ps = ps\<lparr>botnetDetector := bd'\<rparr>
           in if IsBotnet botnetResult then
                (if 0.8 < Confidence botnetResult
                 then (case BlacklistIP (ipManager ps) (redisClient ps) now clientIP
                              (BlacklistDuration (IPBlacklist (Protection (config ps))) * Second) of
                         (err, im', client') \<Rightarrow>
                           (Rejected 403 ''BOTNET_DETECTED'',
                            ps\<lparr>ipManager := im', redisClient := client'\<rparr>))
                 else (Rejected 403 ''BOTNET_DETECTED'', ps))
              else step5_handler ps now req handler))"

definition step3_filter :: "'l ProtectionService \<Rightarrow> int \<Rightarrow> Request \<Rightarrow> string \<Rightarrow> int \<times> int \<Rightarrow> Decision \<times> 'l ProtectionService" where
  "step3_filter ps now req clientIP handler =
     (if rf_Enabled (RequestFilter_cfg (Protection (config ps))) then
        (case FilterRequest (requestFilter ps) now req of
           (filterResult, rf') \<Rightarrow>
             (let ps = ps\<lparr>requestFilter := rf'\<rparr>
              in if \<not> Allowed filterResult then (Rejected 400 ''FILTERED'', ps)
                 else step4_botnet ps now req clientIP handler))
      else step4_botnet ps now req clientIP handler)"

definition step2_rate_limit :: "'l rate_pkg \<Rightarrow> 'l ProtectionService \<Rightarrow> int \<Rightarrow> Request \<Rightarrow> string \<Rightarrow> int \<times> int \<Rightarrow> Decision \<times> 'l ProtectionService" where
  "step2_rate_limit pkg ps now req clientIP handler =
     (case Limiter_Allow pkg (rateLimiter ps) (redisClient ps) now clientIP of
        None \<Rightarrow> (Panicked, ps)
      | Some (ok, limiter', client') \<Rightarrow>
          (let ps = ps\<lparr>rateLimiter := limiter', redisClient := client'\<rparr>
           in if \<not> ok then
                (if ShouldAutoBlacklist (ipManager ps) (redisClient ps) now clientIP 100
                 then (case BlacklistIP (ipManager ps) (redisClient ps) now clientIP
                              (BlacklistDuration (IPBlacklist (Protection (config ps))) * Second) of
                         (err, im', client'') \<Rightarrow>
                           (Rejected 429 ''RATE_LIMITED'',
                            ps\<lparr>ipManager := im', redisClient := client''\<rparr>))
                 else (Rejected 429 ''RATE_LIMITED'', ps))
              else step3_filter ps now req clientIP handler))"

definition ProtectionMiddleware :: "'l rate_pkg \<Rightarrow> 'l ProtectionService \<Rightarrow> int \<Rightarrow> Request \<Rightarrow> int \<times> int \<Rightarrow> Decision \<times> 'l ProtectionService" where
  \<comment> \<open>step 1 of the source, the check of the blacklist, then the other steps in order\<close>
  "ProtectionMiddleware pkg ps now req handler =
     (let clientIP = ps_getClientIP req
      in if bl_Enabled (IPBlacklist (Protection (config ps))) then
           (case IsBlacklisted (ipManager ps) (redisClient ps) now clientIP of
              (blocked, im') \<Rightarrow>
                (let ps = ps\<lparr>ipManager := im'\<rparr>
                 in if blocked then (Rejected 403 ''BLOCKED_IP'', ps)
                    else step2_rate_limit pkg ps now req clientIP handler))
         else step2_rate_limit pkg ps now req clientIP handler)"

section \<open>Example configurations\<close>

text \<open>
  The values of the README's \<^verbatim>\<open>config.yaml\<close>, with a Redis host, a window of 60
  seconds and an alert threshold of 1000. The examples below change single fields.
\<close>

definition readme_config :: Config where
  "readme_config =
     \<lparr>Redis_Host = ''localhost'',
      Protection =
        \<lparr>RateLimit = \<lparr>RequestsPerMinute = 60, BurstSize = 10, WindowSize = 60\<rparr>,
         IPBlacklist = \<lparr>bl_Enabled = True, AutoBlacklistThreshold = 100,
                         BlacklistDuration = 3600, bl_IPs = []\<rparr>,
         IPWhitelist = \<lparr>wl_Enabled = True, wl_IPs = []\<rparr>,
         RequestFilter_cfg = \<lparr>rf_Enabled = True, MaxRequestSize = 1048576,
                               SuspiciousHeaders = [], BlockedUserAgents = [''curl'', ''wget'']\<rparr>,
         Monitoring = \<lparr>mon_Enabled = True, AlertThreshold = 1000, SampleRate = 1\<rparr>\<rparr>\<rparr>"

definition compile_literal :: "string \<Rightarrow> rx option" where
  \<comment> \<open>what \<^verbatim>\<open>regexp.Compile\<close> returns for \<^verbatim>\<open>(?i)\<close> followed by letters and digits,
      the form of every pattern the examples configure\<close>
  "compile_literal p =
     (if HasPrefix p ''(?i)'' \<and> list_all (\<lambda>c. is_digit c \<or> is_lower c \<or> is_upper c) (drop 4 p)
      then Some (lit_i (drop 4 p)) else None)"

definition redis_up :: redis where
  \<comment> \<open>a reachable, empty Redis server\<close>
  "redis_up = \<lparr>failing = False, db = []\<rparr>"

definition no_rate_pkg :: "unit rate_pkg" where
  \<comment> \<open>for a service on Redis, which never creates a token bucket\<close>
  "no_rate_pkg = \<lparr>rate_NewLimiter = (\<lambda>r b. ()), rate_Allow = (\<lambda>l t. (True, ()))\<rparr>"

definition browser :: string where
  "browser = ''Mozilla/5.0''"

definition get_demo :: "string \<Rightarrow> (string \<times> string) list \<Rightarrow> Request" where
  \<comment> \<open>\<^verbatim>\<open>GET /demo/\<close> from the peer address, with the header fields as the server stores them\<close>
  "get_demo peer kvs =
     \<lparr>Method = ''GET'', URL_Path = ''/demo/'', URL_RawQuery = [],
      Header = foldl (\<lambda>h (k, v). Header_Add h k v) [] kvs,
      ContentLength = 0, RemoteAddr = peer\<rparr>"

definition t0 :: int where
  \<comment> \<open>an instant, on a whole second\<close>
  "t0 = 1700000000 * Second"

definition with_whitelist :: "string list \<Rightarrow> Config \<Rightarrow> Config" where
  "with_whitelist ips cfg =
     cfg\<lparr>Protection := (Protection cfg)\<lparr>IPWhitelist := \<lparr>wl_Enabled = True, wl_IPs = ips\<rparr>\<rparr>\<rparr>"

definition with_rate_limit :: "int \<Rightarrow> int \<Rightarrow> Config \<Rightarrow> Config" where
  "with_rate_limit rpm burst cfg =
     cfg\<lparr>Protection := (Protection cfg)\<lparr>RateLimit :=
            (RateLimit (Protection cfg))\<lparr>RequestsPerMinute := rpm, BurstSize := burst\<rparr>\<rparr>\<rparr>"

definition with_alert_threshold :: "int \<Rightarrow> Config \<Rightarrow> Config" where
  "with_alert_threshold n cfg =
     cfg\<lparr>Protection := (Protection cfg)\<lparr>Monitoring :=
            (Monitoring (Protection cfg))\<lparr>AlertThreshold := n\<rparr>\<rparr>\<rparr>"

definition service_on_redis :: "Config \<Rightarrow> unit ProtectionService" where
  \<comment> \<open>the service as \<^verbatim>\<open>NewProtectionService\<close> builds it at \<open>t0\<close> on an empty Redis\<close>
  "service_on_redis cfg = NewProtectionService compile_literal cfg redis_up t0"

definition service_in_memory :: "unit ProtectionService" where
  \<comment> \<open>no Redis host is configured: the limiter is the token bucket\<close>
  "service_in_memory =
     NewProtectionService compile_literal (readme_config\<lparr>Redis_Host := []\<rparr>) redis_up t0"

definition serve :: "unit ProtectionService \<Rightarrow> int \<Rightarrow> Request \<Rightarrow> Decision \<times> unit ProtectionService" where
  \<comment> \<open>one request through the middleware; the handler answers 200 after a millisecond\<close>
  "serve ps now req = ProtectionMiddleware no_rate_pkg ps now req (200, Millisecond)"

definition whitelisting_service :: "unit ProtectionService" where
  \<comment> \<open>the address 198.51.100.9 is whitelisted, the limit is 2 requests in 60 seconds\<close>
  "whitelisting_service =
     service_on_redis (with_rate_limit 2 10 (with_whitelist [''198.51.100.9''] readme_config))"

definition curl_request :: Request where
  "curl_request = get_demo ''198.51.100.9:50000'' [(''User-Agent'', ''curl/8'')]"

definition browser_request :: Request where
  "browser_request = get_demo ''198.51.100.9:50000'' [(''User-Agent'', browser)]"

definition forwarded_request :: Request where
  \<comment> \<open>a request that passed a proxy, which appended the address of its peer\<close>
  "forwarded_request =
     get_demo ''192.0.2.1:4242''
       [(''User-Agent'', browser), (''X-Forwarded-For'', ''203.0.113.5, 10.0.0.1'')]"

definition alerting_service :: "unit ProtectionService" where
  \<comment> \<open>the monitor alerts on the third request of a key\<close>
  "alerting_service = service_on_redis (with_alert_threshold 2 readme_config)"

definition two_content_types :: Header where
  \<comment> \<open>the header of a request with two \<^verbatim>\<open>Content-Type\<close> lines, as the server stores it\<close>
  "two_content_types =
     Header_Add (Header_Add (Header_Add [] ''User-Agent'' browser)
       ''content-type'' ''text/plain'') ''Content-Type'' ''application/json''"

fun run_requests :: "BotnetDetector \<Rightarrow> (int \<times> string \<times> string \<times> string \<times> int) list \<Rightarrow> BotnetDetector" where
  \<comment> \<open>the detector after a sequence of calls \<^verbatim>\<open>AnalyzeRequest(ip, userAgent, path,
      responseTime)\<close>, each at its instant\<close>
  "run_requests bd [] = bd"
| "run_requests bd ((now, ip, userAgent, path, responseTime) # rs) =
     run_requests (snd (AnalyzeRequest bd now ip userAgent path responseTime)) rs"

definition from_ip :: "string \<Rightarrow> (int \<times> string \<times> string \<times> int) list \<Rightarrow> (int \<times> string \<times> string \<times> string \<times> int) list" where
  \<comment> \<open>calls that all come from one address\<close>
  "from_ip ip rs = map (\<lambda>(now, userAgent, path, responseTime). (now, ip, userAgent, path, responseTime)) rs"

definition busy_filter :: RequestFilter where
  \<comment> \<open>a filter that reads four header fields and has recorded 101 requests of the peer
      192.0.2.1:4242, a millisecond apart, in the second before \<open>t0\<close>\<close>
  "busy_filter =
     (NewRequestFilter compile_literal 1048576
        [''Referer'', ''Cookie'', ''X-Api-Version'', ''X-Requested-With''] [''curl'', ''wget''])
     \<lparr>requestHistory :=
        [(''192.0.2.1:4242'', map (\<lambda>i. t0 - Second + int i * Millisecond) [0..<101])]\<rparr>"

definition four_suspicious_fields :: Request where
  "four_suspicious_fields =
     get_demo ''192.0.2.1:4242''
       [(''User-Agent'', browser), (''Referer'', ''../''), (''Cookie'', ''exec''),
        (''X-Api-Version'', ''x.php''), (''X-Requested-With'', ''sqlmap'')]"

definition three_suspicious_fields :: Request where
  "three_suspicious_fields =
     get_demo ''192.0.2.1:4242''
       [(''User-Agent'', browser), (''Referer'', ''../''), (''Cookie'', ''exec''),
        (''X-Api-Version'', ''x.php'')]"

definition net_count :: "BotnetDetector \<Rightarrow> string \<Rightarrow> int" where
  \<comment> \<open>the counter \<^verbatim>\<open>IPCount\<close> the detector holds for a network, 0 before its first request\<close>
  "net_count bd network =
     (case map_of (networkRanges bd) network of None \<Rightarrow> 0 | Some st \<Rightarrow> IPCount st)"

section \<open>Verified properties\<close>

subsection \<open>The IP manager\<close>

lemma WhitelistIP_local:
  "index_bool (whitelistedIPs (fst (snd (WhitelistIP im client now ip)))) ip"
  by (auto simp: WhitelistIP_def index_bool_def Let_def update_conv'
      split: option.splits prod.splits)

text \<open>
  Claim C2. For every key \<open>k\<close> and duration \<open>d\<close>: after \<^verbatim>\<open>WhitelistIP(k)\<close>, a call
  \<^verbatim>\<open>BlacklistIP(k, d)\<close> fails with the error "cannot blacklist whitelisted IP" and
  leaves the manager and Redis as they were (no blacklist entry is recorded), and
  \<^verbatim>\<open>IsBlacklisted(k)\<close> is false. This holds from every state \<open>im\<close> of the manager,
  with or without a Redis client, whatever Redis answers (\<open>c0\<close>, \<open>c\<close>, \<open>c'\<close> are the
  states of Redis at the three calls, \<open>t0\<close>, \<open>t1\<close>, \<open>t2\<close> the instants).
\<close>

theorem whitelist_dominates_blacklist:
  "(case WhitelistIP im c0 t0 k of (e1, im1, c1) \<Rightarrow>
      BlacklistIP im1 c t1 k d = (Some (ConflictWhitelisted k), im1, c)
      \<and> fst (IsBlacklisted im1 c' t2 k) = False)"
proof -
  obtain e1 im1 c1 where w: "WhitelistIP im c0 t0 k = (e1, im1, c1)"
    by (cases "WhitelistIP im c0 t0 k") auto
  from WhitelistIP_local [of im c0 t0 k] w
  have wl: "index_bool (whitelistedIPs im1) k" by simp
  have "BlacklistIP im1 c t1 k d = (Some (ConflictWhitelisted k), im1, c)"
    using wl by (simp add: BlacklistIP_def)
  moreover have "fst (IsBlacklisted im1 c' t2 k) = False"
    using wl by (simp add: IsBlacklisted_def IsWhitelisted_def)
  ultimately show ?thesis using w by simp
qed

text \<open>
  Claim C3. While every Redis command errors, both lookups admit: for every key \<open>k\<close>
  that has no unexpired entry in the manager's local blacklist, \<^verbatim>\<open>IsBlacklisted(k)\<close>
  is false, and the Redis limiter's \<^verbatim>\<open>Allow(k)\<close> is true.
\<close>

theorem fail_open_when_redis_errors:
  assumes "failing r"
    and "case map_of (blacklistedIPs im) k of None \<Rightarrow> True | Some expiry \<Rightarrow> \<not> now < expiry"
  shows "fst (IsBlacklisted im (Some r) now k) = False
         \<and> fst (RedisLimiter_Allow rl r now k) = True"
  using assms
  by (auto simp: IsBlacklisted_def IsWhitelisted_def blacklist_in_redis_def redis_Exists_def
      RedisLimiter_Allow_def Let_def split: option.splits)

text \<open>
  The witness: Redis holds a blacklist key for the address and is unreachable, the
  local entry for the address expired at instant 5, and the limiter's limit is 0.
\<close>

theorem fail_open_when_redis_errors_witness:
  "failing \<lparr>failing = True, db = [(''blacklist:198.51.100.7'', RString ''1'', None)]\<rparr>
   \<and> (case map_of (blacklistedIPs ((NewIPManager True 100 3600)
                 \<lparr>blacklistedIPs := [(''198.51.100.7'', 5)]\<rparr>)) ''198.51.100.7'' of
         None \<Rightarrow> True | Some expiry \<Rightarrow> \<not> 7 < expiry)
   \<and> fst (IsBlacklisted ((NewIPManager True 100 3600)
                 \<lparr>blacklistedIPs := [(''198.51.100.7'', 5)]\<rparr>)
            (Some \<lparr>failing = True, db = [(''blacklist:198.51.100.7'', RString ''1'', None)]\<rparr>)
            7 ''198.51.100.7'') = False
   \<and> fst (RedisLimiter_Allow (NewRedisLimiter 0 (60 * Second))
            \<lparr>failing = True, db = [(''blacklist:198.51.100.7'', RString ''1'', None)]\<rparr>
            7 ''198.51.100.7'') = True"
  using fail_open_when_redis_errors
    [where r = "\<lparr>failing = True, db = [(''blacklist:198.51.100.7'', RString ''1'', None)]\<rparr>"
       and im = "(NewIPManager True 100 3600)\<lparr>blacklistedIPs := [(''198.51.100.7'', 5)]\<rparr>"
       and k = "''198.51.100.7''" and now = 7 and rl = "NewRedisLimiter 0 (60 * Second)"]
  by (simp add: NewIPManager_def)

subsection \<open>The pipeline and the whitelist\<close>

lemma whitelisted_key_reaches_the_limiter:
  assumes "IsWhitelisted (ipManager ps) (redisClient ps) now (ps_getClientIP req)"
    and "Limiter_Allow pkg (rateLimiter ps) (redisClient ps) now (ps_getClientIP req)
           = Some (False, limiter', client')"
  shows "fst (ProtectionMiddleware pkg ps now req handler) = Rejected 429 ''RATE_LIMITED''"
  using assms
  by (simp add: ProtectionMiddleware_def step2_rate_limit_def IsBlacklisted_def
      ShouldAutoBlacklist_def Let_def split: prod.splits)

lemma whitelisted_key_reaches_the_filter:
  assumes "IsWhitelisted (ipManager ps) (redisClient ps) now (ps_getClientIP req)"
    and "Limiter_Allow pkg (rateLimiter ps) (redisClient ps) now (ps_getClientIP req)
           = Some (True, limiter', client')"
    and "rf_Enabled (RequestFilter_cfg (Protection (config ps)))"
    and "\<not> Allowed (fst (FilterRequest (requestFilter ps) now req))"
  shows "fst (ProtectionMiddleware pkg ps now req handler) = Rejected 400 ''FILTERED''"
  using assms
  by (simp add: ProtectionMiddleware_def step2_rate_limit_def step3_filter_def
      IsBlacklisted_def Let_def case_prod_beta)

text \<open>
  Claim C1 (the code departs from it). The middleware never asks whether the key is
  whitelisted before the later stages: it only calls \<^verbatim>\<open>IsBlacklisted\<close>, which is false
  for a whitelisted key, and goes on to the limiter, the filter and the detector (the
  two lemmas above, for every state of the service). Here the address 198.51.100.9
  is whitelisted. Its request with the user agent \<^verbatim>\<open>curl/8\<close> is rejected with 400
  \<^verbatim>\<open>FILTERED\<close> (the configuration blocks \<^verbatim>\<open>curl\<close>), and with a browser's user agent
  and a limit of 2 its third request within two milliseconds is rejected with 429
  \<^verbatim>\<open>RATE_LIMITED\<close>.
\<close>

theorem whitelisted_key_is_filtered_and_rate_limited:
  "ps_getClientIP curl_request = ''198.51.100.9''
   \<and> IsWhitelisted (ipManager whitelisting_service) (redisClient whitelisting_service) t0
        ''198.51.100.9''
   \<and> fst (serve whitelisting_service t0 curl_request) = Rejected 400 ''FILTERED''
   \<and> (case serve whitelisting_service t0 browser_request of
         (d1, ps1) \<Rightarrow>
           (case serve ps1 (t0 + Millisecond) browser_request of
              (d2, ps2) \<Rightarrow>
                (case serve ps2 (t0 + 2 * Millisecond) browser_request of
                   (d3, ps3) \<Rightarrow>
                     d1 = Forwarded 200 \<and> d2 = Forwarded 200
                     \<and> IsWhitelisted (ipManager ps2) (redisClient ps2) (t0 + 2 * Millisecond)
                          ''198.51.100.9''
                     \<and> d3 = Rejected 429 ''RATE_LIMITED'')))"
  by code_simp

subsection \<open>The sliding window on Redis\<close>

text \<open>
  Claim C4 (the code departs from it). The scores of the sorted set are whole seconds
  and the cut-off is rounded down to a whole second and removed inclusively, so an
  entry younger than the window can be removed. With limit 1 and a window of 60
  seconds, a call 0.9 s after a full second is admitted, and so is the next call
  59.9 s later: two admissions inside one window. The limiter in memory, which
  compares the instants themselves, refuses the second call.
\<close>

theorem redis_window_admits_two_within_one_window:
  "(case RedisLimiter_Allow (NewRedisLimiter 1 (60 * Second)) redis_up
           (t0 + 900 * Millisecond) ''198.51.100.7'' of
      (first, r1) \<Rightarrow>
        (case RedisLimiter_Allow (NewRedisLimiter 1 (60 * Second)) r1
                (t0 + 60 * Second + 800 * Millisecond) ''198.51.100.7'' of
           (second, r2) \<Rightarrow> first \<and> second))
   \<and> (t0 + 60 * Second + 800 * Millisecond) - (t0 + 900 * Millisecond) < 60 * Second
   \<and> (case SlidingWindowLimiter_Allow (NewSlidingWindowLimiter 1 (60 * Second))
             (t0 + 900 * Millisecond) ''198.51.100.7'' of
         (first, swl1) \<Rightarrow>
           (case SlidingWindowLimiter_Allow swl1 (t0 + 60 * Second + 800 * Millisecond)
                   ''198.51.100.7'' of
              (second, swl2) \<Rightarrow> first \<and> \<not> second))"
  by code_simp

subsection \<open>The detector\<close>

lemma AnalyzeRequest_unfold:
  "AnalyzeRequest bd now ip ua path rt =
     (let behavior = updateIPBehavior (getOrCreateIPBehavior bd now ip) now ua path rt;
          bd1 = bd\<lparr>requestPatterns := AList.update ip behavior (requestPatterns bd),
                   globalPatterns := updateGlobalPatterns (globalPatterns bd) ip ua path\<rparr>;
          a0 = analyzeBehavior behavior
                 \<lparr>ba_IP = ip, Timestamp = now, IsBotnet = False, Confidence = 0,
                  Indicators = [], ba_RiskScore = 0\<rparr>;
          a1 = fst (analyzeNetwork bd1 now ip a0);
          bd2 = snd (analyzeNetwork bd1 now ip a0);
          a3 = analyzeGlobalPatterns bd2 (analyzeTiming bd2 now ip a1)
      in (calculateFinalDecision (snd (analyzeCoordination bd2 now ip a3))
            (fst (analyzeCoordination bd2 now ip a3)),
          snd (analyzeCoordination bd2 now ip a3)))"
  by (simp add: AnalyzeRequest_def Let_def case_prod_beta)







lemma analyzeNetwork_count:
  "net_count (snd (analyzeNetwork bd now ip a)) (getNetworkFromIP ip)
     = net_count bd (getNetworkFromIP ip) + 1"
  by (simp add: analyzeNetwork_def net_count_def Let_def update_conv' split: option.splits)

lemma analyzeNetwork_flags:
  "100 \<le> net_count bd (getNetworkFromIP ip)
   \<Longrightarrow> fst (analyzeNetwork bd now ip a) = flag a ''High IP count from network'' 30"
  by (simp add: analyzeNetwork_def net_count_def Let_def split: option.splits)

lemma analyzeCoordination_networks:
  "networkRanges (snd (analyzeCoordination bd now ip a)) = networkRanges bd"
  by (simp add: analyzeCoordination_def Let_def)

lemma analyzeCoordination_patterns:
  "requestPatterns (snd (analyzeCoordination bd now ip a)) = requestPatterns bd"
  by (simp add: analyzeCoordination_def Let_def)

lemma analyzeNetwork_patterns:
  "requestPatterns (snd (analyzeNetwork bd now ip a)) = requestPatterns bd"
  by (simp add: analyzeNetwork_def Let_def)

lemma AnalyzeRequest_count:
  "net_count (snd (AnalyzeRequest bd now ip ua path rt)) (getNetworkFromIP ip)
     = net_count bd (getNetworkFromIP ip) + 1"
proof -
  define bd1 where
    "bd1 = bd\<lparr>requestPatterns :=
              AList.update ip (updateIPBehavior (getOrCreateIPBehavior bd now ip) now ua path rt)
                (requestPatterns bd),
            globalPatterns := updateGlobalPatterns (globalPatterns bd) ip ua path\<rparr>"
  have same: "net_count bd1 n = net_count bd n" for n
    by (simp add: bd1_def net_count_def)
  obtain a b where
    "snd (AnalyzeRequest bd now ip ua path rt)
       = snd (analyzeCoordination (snd (analyzeNetwork bd1 now ip a)) now ip b)"
    by (simp add: AnalyzeRequest_unfold Let_def bd1_def)
  then have "net_count (snd (AnalyzeRequest bd now ip ua path rt)) (getNetworkFromIP ip)
               = net_count (snd (analyzeNetwork bd1 now ip a)) (getNetworkFromIP ip)"
    by (simp add: net_count_def analyzeCoordination_networks)
  then show ?thesis by (simp add: analyzeNetwork_count same)
qed

lemma AnalyzeRequest_patterns:
  "set (map fst (requestPatterns (snd (AnalyzeRequest bd now ip ua path rt))))
     = insert ip (set (map fst (requestPatterns bd)))"
  by (simp add: AnalyzeRequest_unfold Let_def analyzeCoordination_patterns
      analyzeNetwork_patterns update_keys del: set_map) auto

lemma run_requests_count:
  "net_count (run_requests bd (from_ip ip rs)) (getNetworkFromIP ip)
     = net_count bd (getNetworkFromIP ip) + int (length rs)"
proof (induction rs arbitrary: bd)
  case Nil
  then show ?case by (simp add: from_ip_def)
next
  case (Cons r rs)
  obtain now ua path rt where r: "r = (now, ua, path, rt)" by (cases r) auto
  have "run_requests bd (from_ip ip (r # rs))
          = run_requests (snd (AnalyzeRequest bd now ip ua path rt)) (from_ip ip rs)"
    by (simp add: from_ip_def r)
  then show ?case
    using Cons.IH [of "snd (AnalyzeRequest bd now ip ua path rt)"]
    by (simp add: AnalyzeRequest_count)
qed

lemma run_requests_keys:
  "set (map fst (requestPatterns (run_requests bd (from_ip ip rs))))
     \<subseteq> insert ip (set (map fst (requestPatterns bd)))"
proof (induction rs arbitrary: bd)
  case Nil
  then show ?case by (auto simp: from_ip_def)
next
  case (Cons r rs)
  obtain now ua path rt where r: "r = (now, ua, path, rt)" by (cases r) auto
  define bd' where "bd' = snd (AnalyzeRequest bd now ip ua path rt)"
  have step: "run_requests bd (from_ip ip (r # rs)) = run_requests bd' (from_ip ip rs)"
    by (simp add: from_ip_def r bd'_def)
  have "set (map fst (requestPatterns (run_requests bd' (from_ip ip rs))))
          \<subseteq> insert ip (set (map fst (requestPatterns bd')))"
    by (rule Cons.IH)
  also have "set (map fst (requestPatterns bd')) = insert ip (set (map fst (requestPatterns bd)))"
    unfolding bd'_def by (rule AnalyzeRequest_patterns)
  finally show ?case unfolding step by simp
qed

lemma flag_keeps: "x \<in> set (Indicators a) \<Longrightarrow> x \<in> set (Indicators (flag a y n))"
  by (simp add: flag_def)

lemma indicator_survives:
  assumes "x \<in> set (Indicators a)"
  shows "x \<in> set (Indicators (calculateFinalDecision bd3
            (fst (analyzeCoordination bd2 now ip
               (analyzeGlobalPatterns bd1 (analyzeTiming bd0 now ip a))))))"
proof -
  have 1: "x \<in> set (Indicators (analyzeTiming bd0 now ip a))"
    using assms by (simp add: analyzeTiming_def Let_def flag_keeps)
  have 2: "x \<in> set (Indicators (analyzeGlobalPatterns bd1 (analyzeTiming bd0 now ip a)))"
    using 1 by (simp add: analyzeGlobalPatterns_def Let_def flag_keeps)
  have 3: "x \<in> set (Indicators (fst (analyzeCoordination bd2 now ip
              (analyzeGlobalPatterns bd1 (analyzeTiming bd0 now ip a)))))"
    using 2 by (simp add: analyzeCoordination_def Let_def flag_keeps)
  show ?thesis
    using 3 by (simp add: calculateFinalDecision_def Let_def)
qed

lemma AnalyzeRequest_flags_network:
  assumes "100 \<le> net_count bd (getNetworkFromIP ip)"
  shows "''High IP count from network''
           \<in> set (Indicators (fst (AnalyzeRequest bd now ip ua path rt)))"
proof -
  define bd1 where
    "bd1 = bd\<lparr>requestPatterns :=
              AList.update ip (updateIPBehavior (getOrCreateIPBehavior bd now ip) now ua path rt)
                (requestPatterns bd),
            globalPatterns := updateGlobalPatterns (globalPatterns bd) ip ua path\<rparr>"
  have c: "100 \<le> net_count bd1 (getNetworkFromIP ip)"
    using assms by (simp add: bd1_def net_count_def)
  define a0 where
    "a0 = analyzeBehavior (updateIPBehavior (getOrCreateIPBehavior bd now ip) now ua path rt)
            \<lparr>ba_IP = ip, Timestamp = now, IsBotnet = False, Confidence = 0,
             Indicators = [], ba_RiskScore = 0\<rparr>"
  define bd2 where "bd2 = snd (analyzeNetwork bd1 now ip a0)"
  define a1 where "a1 = fst (analyzeNetwork bd1 now ip a0)"
  have a1: "''High IP count from network'' \<in> set (Indicators a1)"
    using analyzeNetwork_flags [OF c, of now a0] by (simp add: a1_def flag_def)
  have "fst (AnalyzeRequest bd now ip ua path rt)
          = calculateFinalDecision
              (snd (analyzeCoordination bd2 now ip
                 (analyzeGlobalPatterns bd2 (analyzeTiming bd2 now ip a1))))
              (fst (analyzeCoordination bd2 now ip
                 (analyzeGlobalPatterns bd2 (analyzeTiming bd2 now ip a1))))"
    by (simp add: AnalyzeRequest_unfold Let_def bd1_def a0_def bd2_def a1_def)
  then show ?thesis
    using indicator_survives [OF a1] by simp
qed

text \<open>
  Claim C8 (the code departs from it). \<^verbatim>\<open>analyzeNetwork\<close> adds one to \<^verbatim>\<open>IPCount\<close> of
  the network on every request, not on every new address. After any 100 requests
  from one address to a new detector (whatever their instants, user agents, paths
  and response times), the next request of that address gets the indicator
  "High IP count from network", although the detector has seen no other address.
\<close>

theorem single_address_raises_network_indicator:
  assumes "length rs = 100"
  shows "''High IP count from network''
           \<in> set (Indicators (fst (AnalyzeRequest
                 (run_requests (NewBotnetDetector thr window) (from_ip ip rs))
                 now ip ua path rt)))
         \<and> set (map fst (requestPatterns (run_requests (NewBotnetDetector thr window)
                 (from_ip ip rs)))) \<subseteq> {ip}"
proof -
  have z: "net_count (NewBotnetDetector thr window) (getNetworkFromIP ip) = 0"
    by (simp add: net_count_def NewBotnetDetector_def)
  have "net_count (run_requests (NewBotnetDetector thr window) (from_ip ip rs))
          (getNetworkFromIP ip) = 100"
    unfolding run_requests_count z using assms by simp
  then have "''High IP count from network''
           \<in> set (Indicators (fst (AnalyzeRequest
                 (run_requests (NewBotnetDetector thr window) (from_ip ip rs))
                 now ip ua path rt)))"
    by (simp add: AnalyzeRequest_flags_network)
  moreover have "set (map fst (requestPatterns (run_requests (NewBotnetDetector thr window)
                 (from_ip ip rs)))) \<subseteq> {ip}"
    using run_requests_keys [of "NewBotnetDetector thr window" ip rs]
    by (simp add: NewBotnetDetector_def)
  ultimately show ?thesis by simp
qed

text \<open>
  The witness: 100 requests of \<^verbatim>\<open>/demo/\<close> from 203.0.113.7 in the same second, and
  the next one.
\<close>

theorem single_address_raises_network_indicator_witness:
  "length (replicate 100 (t0, browser, ''/demo/'', 0::int)) = 100
   \<and> ''High IP count from network''
        \<in> set (Indicators (fst (AnalyzeRequest
              (run_requests (NewBotnetDetector 0.8 (60 * Second))
                 (from_ip ''203.0.113.7'' (replicate 100 (t0, browser, ''/demo/'', 0))))
              (t0 + Millisecond) ''203.0.113.7'' browser ''/demo/'' 0)))"
  using single_address_raises_network_indicator
    [where rs = "replicate 100 (t0, browser, ''/demo/'', 0)" and thr = "0.8"
       and window = "60 * Second" and ip = "''203.0.113.7''" and now = "t0 + Millisecond"
       and ua = browser and path = "''/demo/''" and rt = 0]
  by simp

subsection \<open>The filter: the high-frequency check\<close>

text \<open>
  Claim C6, as the code has it. The filter adds 20 to the risk score when the
  high-frequency check fires and then compares the score, the 20 included, with 50.
  For a request that passed the checks of size, user agent and URL, with \<open>prior\<close> the
  risk of its suspicious headers (10 each): if \<open>prior + 20\<close> exceeds 50, that is
  if \<open>prior\<close> exceeds 30, the request is blocked at this check with the reason
  "High frequency requests detected" and the history is not updated; otherwise the
  remaining checks run (method, missing headers), the history is updated and the
  request is allowed.
\<close>

theorem high_frequency_blocks_when_risk_with_it_exceeds_50:
  assumes "\<not> maxRequestSize rf < ContentLength req"
    and "\<not> isBlockedUserAgent rf (UserAgent req)"
    and "\<not> hasMaliciousPattern rf (URL_Path req @ URL_RawQuery req)"
    and "isHighFrequency rf now (RemoteAddr req)"
  shows "(let prior = 10 * int (length (checkSuspiciousHeaders rf (Header req)))
          in case FilterRequest rf now req of
               (res, rf') \<Rightarrow>
                 if 50 < prior + 20 then
                   res = \<lparr>Allowed = False, Reason = ''High frequency requests detected'',
                          RiskScore = prior + 20, Blocked = True, ShouldLog = True\<rparr>
                   \<and> rf' = rf
                 else
                   Allowed res \<and> \<not> Blocked res \<and> ShouldLog res
                   \<and> RiskScore res
                       = prior + 20 + (if isSuspiciousMethod (Method req) then 15 else 0)
                           + (if hasMissingHeaders (Header req) then 10 else 0)
                   \<and> rf' = updateRequestHistory rf now (RemoteAddr req))"
proof (cases "50 < 10 * int (length (checkSuspiciousHeaders rf (Header req))) + 20")
  case True
  then have "checkSuspiciousHeaders rf (Header req) \<noteq> []" by auto
  with True assms show ?thesis by (simp add: FilterRequest_def Let_def)
next
  case False
  with assms show ?thesis by (simp add: FilterRequest_def Let_def)
qed

text \<open>
  The witness: three suspicious header fields give a prior risk of 30; the check
  fires, the risk becomes 50, and the request is allowed.
\<close>

theorem high_frequency_blocks_when_risk_with_it_exceeds_50_witness:
  "isHighFrequency busy_filter t0 (RemoteAddr three_suspicious_fields)
   \<and> length (checkSuspiciousHeaders busy_filter (Header three_suspicious_fields)) = 3
   \<and> Allowed (fst (FilterRequest busy_filter t0 three_suspicious_fields))
   \<and> RiskScore (fst (FilterRequest busy_filter t0 three_suspicious_fields)) = 50"
proof -
  have h1: "\<not> maxRequestSize busy_filter < ContentLength three_suspicious_fields"
    by code_simp
  have h2: "\<not> isBlockedUserAgent busy_filter (UserAgent three_suspicious_fields)"
    by code_simp
  have h3: "\<not> hasMaliciousPattern busy_filter
              (URL_Path three_suspicious_fields @ URL_RawQuery three_suspicious_fields)"
    by code_simp
  have h4: "isHighFrequency busy_filter t0 (RemoteAddr three_suspicious_fields)"
    by code_simp
  have n: "length (checkSuspiciousHeaders busy_filter (Header three_suspicious_fields)) = 3"
    by code_simp
  have m: "\<not> isSuspiciousMethod (Method three_suspicious_fields)"
    by code_simp
  have u: "\<not> hasMissingHeaders (Header three_suspicious_fields)"
    by code_simp
  show ?thesis
    using high_frequency_blocks_when_risk_with_it_exceeds_50 [OF h1 h2 h3 h4] h4 n m u
    by (auto simp: Let_def split: prod.splits)
qed

text \<open>
  The claim as stated fails: with four suspicious header fields the risk before the
  check is 40, which does not exceed 50, and the request is blocked at the check.
\<close>

theorem high_frequency_terminal_only_above_50_counterexample:
  "isHighFrequency busy_filter t0 (RemoteAddr four_suspicious_fields)
   \<and> 10 * int (length (checkSuspiciousHeaders busy_filter (Header four_suspicious_fields))) = 40
   \<and> fst (FilterRequest busy_filter t0 four_suspicious_fields)
       = \<lparr>Allowed = False, Reason = ''High frequency requests detected'', RiskScore = 60,
          Blocked = True, ShouldLog = True\<rparr>"
  by code_simp

subsection \<open>The filter: header manipulation\<close>

lemma any_duplicated_absent:
  assumes "\<And>k. k \<in> set ks \<Longrightarrow> map_of h k = None"
  shows "any_duplicated ks h = False"
  using assms by (induction ks) (auto simp: index_values_def)

lemma lower_case_names_not_canonical:
  "CanonicalMIMEHeaderKey ''host'' \<noteq> ''host''"
  "CanonicalMIMEHeaderKey ''content-type'' \<noteq> ''content-type''"
  "CanonicalMIMEHeaderKey ''content-length'' \<noteq> ''content-length''"
  by code_simp+

lemma canonical_keys_hide_duplicates:
  \<comment> \<open>no field name in canonical form is one of the three lower-case names\<close>
  assumes "\<And>k. k \<in> fst ` set h \<Longrightarrow> CanonicalMIMEHeaderKey k = k"
  shows "hasHeaderManipulation h = any_field (\<lambda>v. Contains v [CHR 0x00]) h"
proof -
  have "map_of h k = None" if "k \<in> set [''host'', ''content-type'', ''content-length'']" for k
  proof (rule ccontr)
    assume "map_of h k \<noteq> None"
    then have "k \<in> fst ` set h" by (metis map_of_eq_None_iff)
    then have "CanonicalMIMEHeaderKey k = k" by (rule assms)
    with that lower_case_names_not_canonical show False by auto
  qed
  then have "any_duplicated [''host'', ''content-type'', ''content-length''] h = False"
    by (rule any_duplicated_absent)
  then show ?thesis by (simp add: hasHeaderManipulation_def)
qed

text \<open>
  Claim C7 (the code departs from it). \<^verbatim>\<open>hasHeaderManipulation\<close> indexes the header
  with the lower-case names \<^verbatim>\<open>host\<close>, \<^verbatim>\<open>content-type\<close> and \<^verbatim>\<open>content-length\<close>, but a
  header holds its fields under their canonical names. A request with two
  \<^verbatim>\<open>Content-Type\<close> lines has both values under \<^verbatim>\<open>Content-Type\<close>; the check does not
  fire and \<^verbatim>\<open>checkSuspiciousHeaders\<close> reports nothing. Two values under \<^verbatim>\<open>Host\<close> do
  not fire it either; only a map built with the lower-case key does.
\<close>

theorem duplicate_content_type_is_not_detected:
  "two_content_types
     = [(''User-Agent'', [browser]), (''Content-Type'', [''text/plain'', ''application/json''])]
   \<and> hasHeaderManipulation two_content_types = False
   \<and> checkSuspiciousHeaders (NewRequestFilter compile_literal 1048576 [] [''curl'', ''wget''])
        two_content_types = []
   \<and> hasHeaderManipulation [(''Host'', [''a.example'', ''b.example''])] = False
   \<and> hasHeaderManipulation [(''host'', [''a.example'', ''b.example''])] = True"
  by code_simp

subsection \<open>Updating the rate limits\<close>

text \<open>
  Claim C9, as the code has it: \<^verbatim>\<open>UpdateRateLimitConfig\<close> validates nothing. For all
  integers it returns no error, stores both values in the configuration and replaces
  the limiter by a new one built from them (on Redis from the requests per minute and
  the configured window, in memory from the requests per minute and the burst); the
  route answers 200. The route answers 400, and leaves the service as it was, only
  when the body cannot be bound.
\<close>

theorem update_rate_limit_always_succeeds:
  "(case UpdateRateLimitConfig ps rpm burst of
      (err, ps') \<Rightarrow>
        err = None
        \<and> RateLimit (Protection (config ps'))
            = (RateLimit (Protection (config ps)))\<lparr>RequestsPerMinute := rpm, BurstSize := burst\<rparr>
        \<and> rateLimiter ps'
            = (if redisClient ps \<noteq> None
               then Redis (NewRedisLimiter rpm
                      (WindowSize (RateLimit (Protection (config ps))) * Second))
               else TokenBucket (NewTokenBucketLimiter rpm burst))
        \<and> put_rate_limits ps (Inr (rpm, burst)) = (200, ps'))
   \<and> put_rate_limits ps (Inl e) = (400, ps)"
  by (simp add: UpdateRateLimitConfig_def initRateLimiter_def put_rate_limits_def Let_def)

text \<open>
  The claim as stated fails: \<open>-5\<close> requests per minute with a burst of \<open>0\<close> are
  accepted, the configuration and the limiter on Redis change, and the route answers
  200; the service in memory accepts \<open>0\<close> requests per minute with a burst of \<open>-3\<close>.
\<close>

theorem update_rate_limit_rejects_invalid_counterexample:
  "fst (UpdateRateLimitConfig (service_on_redis readme_config) (- 5) 0) = None
   \<and> rateLimiter (service_on_redis readme_config)
       = Redis \<lparr>rl_limit = 60, rl_window = 60000000000, rl_prefix = ''rate_limit:''\<rparr>
   \<and> rateLimiter (snd (UpdateRateLimitConfig (service_on_redis readme_config) (- 5) 0))
       = Redis \<lparr>rl_limit = - 5, rl_window = 60000000000, rl_prefix = ''rate_limit:''\<rparr>
   \<and> RateLimit (Protection (config
        (snd (UpdateRateLimitConfig (service_on_redis readme_config) (- 5) 0))))
       = \<lparr>RequestsPerMinute = - 5, BurstSize = 0, WindowSize = 60\<rparr>
   \<and> fst (put_rate_limits (service_on_redis readme_config) (Inr (- 5, 0))) = 200
   \<and> fst (UpdateRateLimitConfig service_in_memory 0 (- 3)) = None
   \<and> rateLimiter (snd (UpdateRateLimitConfig service_in_memory 0 (- 3)))
       = TokenBucket \<lparr>tbl_limiters = [], tbl_limit = 0, tbl_burst = - 3\<rparr>"
  by code_simp

subsection \<open>The client key of the monitor and of the pipeline\<close>

lemma Cut_found: "snd (snd (Cut s c)) \<longleftrightarrow> c \<in> set s"
  by (induction s) (auto split: prod.splits)

lemma Cut_before_shorter: "c \<in> set s \<Longrightarrow> length (fst (Cut s c)) < length s"
  by (induction s)
     (auto split: prod.splits simp: Cut_found dest: arg_cong [where f = "\<lambda>p. snd (snd p)"])

lemma Split_nonempty: "Split s c \<noteq> []"
  by (induction s) (auto split: list.splits)

lemma hd_Split_shorter: "c \<in> set s \<Longrightarrow> length (hd (Split s c)) < length s"
  by (induction s) (auto split: list.splits simp: Split_nonempty)

lemma drop_rune_le: "drop_rune rs s = Some t \<Longrightarrow> length t \<le> length s"
  by (induction rs) (auto split: if_splits)

lemma trim_runes_le: "length (trim_runes rs n s) \<le> length s"
proof (induction n arbitrary: s)
  case 0
  then show ?case by simp
next
  case (Suc n)
  show ?case
  proof (cases "drop_rune rs s")
    case None
    then show ?thesis by simp
  next
    case (Some t)
    with Suc [of t] drop_rune_le [OF Some] show ?thesis by simp
  qed
qed

lemma TrimSpace_le: "length (TrimSpace s) \<le> length s"
proof -
  have "length (TrimSpace s) \<le> length (trim_runes space_runes (length s) s)"
    using trim_runes_le [of "map rev space_runes" _ "rev (trim_runes space_runes (length s) s)"]
    by (simp add: TrimSpace_def Let_def)
  also have "\<dots> \<le> length s" by (rule trim_runes_le)
  finally show ?thesis .
qed

text \<open>
  A request that comes without the two forwarding header fields has the remote
  address \<open>host:port\<close> as its key in the monitor and the host alone in the pipeline.
\<close>

lemma direct_connection_keys_differ:
  assumes "Header_Get (Header req) ''X-Forwarded-For'' = []"
    and "Header_Get (Header req) ''X-Real-IP'' = []"
    and "CHR '':'' \<in> set (RemoteAddr req)"
  shows "tm_getClientIP req = RemoteAddr req"
    and "ps_getClientIP req = fst (Cut (RemoteAddr req) CHR '':'')"
    and "ps_getClientIP req \<noteq> tm_getClientIP req"
proof -
  show 1: "tm_getClientIP req = RemoteAddr req"
    using assms by (simp add: tm_getClientIP_def)
  show 2: "ps_getClientIP req = fst (Cut (RemoteAddr req) CHR '':'')"
  proof (cases "Cut (RemoteAddr req) CHR '':''")
    case (fields ip after found)
    with assms(3) Cut_found [of "RemoteAddr req" "CHR '':''"] have found by simp
    with fields assms(1,2) show ?thesis by (simp add: ps_getClientIP_def Let_def)
  qed
  show "ps_getClientIP req \<noteq> tm_getClientIP req"
    using Cut_before_shorter [OF assms(3)] 1 2 by auto
qed

text \<open>
  A request whose \<^verbatim>\<open>X-Forwarded-For\<close> value holds a comma has the whole value as its
  key in the monitor and the first element, trimmed, in the pipeline.
\<close>

lemma forwarded_list_keys_differ:
  assumes "CHR '','' \<in> set (Header_Get (Header req) ''X-Forwarded-For'')"
  shows "tm_getClientIP req = Header_Get (Header req) ''X-Forwarded-For''"
    and "ps_getClientIP req
           = TrimSpace (hd (Split (Header_Get (Header req) ''X-Forwarded-For'') CHR '',''))"
    and "ps_getClientIP req \<noteq> tm_getClientIP req"
proof -
  let ?x = "Header_Get (Header req) ''X-Forwarded-For''"
  have ne: "?x \<noteq> []" using assms by auto
  show 1: "tm_getClientIP req = ?x" using ne by (simp add: tm_getClientIP_def)
  show 2: "ps_getClientIP req = TrimSpace (hd (Split ?x CHR '',''))"
    using ne Split_nonempty [of ?x "CHR '',''"] by (simp add: ps_getClientIP_def Let_def)
  have "length (TrimSpace (hd (Split ?x CHR '',''))) < length ?x"
    using TrimSpace_le [of "hd (Split ?x CHR '','')"] hd_Split_shorter [OF assms] by linarith
  with 1 2 show "ps_getClientIP req \<noteq> tm_getClientIP req" by auto
qed

text \<open>
  Claim C10. The two extractions of the client key are not equivalent. For a request
  with \<^verbatim>\<open>X-Forwarded-For: 203.0.113.5, 10.0.0.1\<close> the monitor's key is the whole
  header value and the pipeline's key is \<open>203.0.113.5\<close>; without the header the
  monitor's key is the remote address with its port and the pipeline's key the
  address alone. On the third such request the monitor alerts under its key, the
  alert handler blacklists that key, and the pipeline's check of its own key stays
  false: the next request is forwarded.
\<close>

theorem monitor_and_pipeline_keys_differ:
  "tm_getClientIP forwarded_request = ''203.0.113.5, 10.0.0.1''
   \<and> ps_getClientIP forwarded_request = ''203.0.113.5''
   \<and> tm_getClientIP browser_request = ''198.51.100.9:50000''
   \<and> ps_getClientIP browser_request = ''198.51.100.9''
   \<and> (case serve alerting_service t0 forwarded_request of
         (d1, ps1) \<Rightarrow>
           (case serve ps1 (t0 + Second) forwarded_request of
              (d2, ps2) \<Rightarrow>
                (case serve ps2 (t0 + 2 * Second) forwarded_request of
                   (d3, ps3) \<Rightarrow>
                     (let ps4 = processAlerts ps3 (t0 + 3 * Second)
                      in map Type (alertChan (trafficMonitor ps3)) = [''high_request_rate'']
                         \<and> map al_IP (alertChan (trafficMonitor ps3)) = [''203.0.113.5, 10.0.0.1'']
                         \<and> map fst (blacklistedIPs (ipManager ps4)) = [''203.0.113.5, 10.0.0.1'']
                         \<and> fst (IsBlacklisted (ipManager ps4) (redisClient ps4) (t0 + 4 * Second)
                                  ''203.0.113.5, 10.0.0.1'') = True
                         \<and> fst (IsBlacklisted (ipManager ps4) (redisClient ps4) (t0 + 4 * Second)
                                  (ps_getClientIP forwarded_request)) = False
                         \<and> fst (serve ps4 (t0 + 4 * Second) forwarded_request) = Forwarded 200))))"
  by code_simp

end
